theory Spec2Isabelle
  imports Main
begin

section \<open>JavaScript values\<close>

text \<open>
  The emission tools work on untyped rows and on the gateway's JSON, so values are
  modelled as a datatype of JavaScript values. Strings are lists of 8-bit characters, the
  UTF-8 bytes of the text: the model computes on ASCII text, which is what every
  identifier, status and code the workflow branches on consists of. Numbers are the integers, with not-a-number and the
  infinities as constructors of their own. Where the result of a library function of the
  engine depends on more than that (a string with characters outside ASCII, an integer
  beyond the range in which Numbers are exact), it is taken from a parameter of the
  environment. A function value occurs only as a member inherited by a code table.
\<close>

datatype jsval =
    JUndefined
  | JNull
  | JBool bool
  | JNum int
  | JNaN
  | JInfinity bool
  | JStr string
  | JArr "jsval list"
  | JObj "(string \<times> jsval) list"
  | JFunction string

datatype js_exn = Error string | TypeError string

fun message :: "js_exn \<Rightarrow> string" where
  "message (Error m) = m"
| "message (TypeError m) = m"

fun truthy :: "jsval \<Rightarrow> bool" where
  "truthy JUndefined = False"
| "truthy JNull = False"
| "truthy (JBool b) = b"
| "truthy (JNum n) = (n \<noteq> 0)"
| "truthy JNaN = False"
| "truthy (JStr s) = (s \<noteq> [])"
| "truthy (JArr xs) = True"
| "truthy (JObj kvs) = True"
| "truthy (JInfinity negative) = True"
| "truthy (JFunction f) = True"

text \<open>The operator \<open>a || b\<close>.\<close>

definition js_or :: "jsval \<Rightarrow> jsval \<Rightarrow> jsval" where
  "js_or a b = (if truthy a then a else b)"

text \<open>A row of a table, or any object read by field name: an absent field reads as undefined.\<close>

type_synonym row = "string \<rightharpoonup> jsval"

definition col :: "row \<Rightarrow> string \<Rightarrow> jsval" where
  "col r k = (case r k of None \<Rightarrow> JUndefined | Some v \<Rightarrow> v)"

text \<open>UTF-8 bytes of the accented letters of the messages.\<close>

definition a_tilde :: string where "a_tilde = [CHR 0xC3, CHR 0xA3]"
definition a_acute :: string where "a_acute = [CHR 0xC3, CHR 0xA1]"
definition o_acute :: string where "o_acute = [CHR 0xC3, CHR 0xB3]"
definition c_cedilla :: string where "c_cedilla = [CHR 0xC3, CHR 0xA7]"
definition dquote :: string where "dquote = [CHR 0x22]"

subsection \<open>Conversion to string\<close>

definition digit_char :: "nat \<Rightarrow> char" where
  "digit_char d = (if d < 10 then char_of (48 + d) else char_of (87 + d))"

function radix_digits :: "nat \<Rightarrow> nat \<Rightarrow> string" where
  "radix_digits b n =
     (if b < 2 \<or> n < b then [digit_char n]
      else radix_digits b (n div b) @ [digit_char (n mod b)])"
  by pat_completeness auto
termination
  by (relation "measure (\<lambda>(b, n). n)") auto

definition show_int :: "int \<Rightarrow> string" where
  "show_int i = (if i < 0 then CHR ''-'' # radix_digits 10 (nat (- i)) else radix_digits 10 (nat i))"

fun join :: "string \<Rightarrow> string list \<Rightarrow> string" where
  "join sep [] = []"
| "join sep [s] = s"
| "join sep (s # t # ss) = s @ sep @ join sep (t # ss)"

text \<open>
  \<open>String(v)\<close>, as template literals, \<open>new Error(v)\<close>, \<open>parseInt\<close> and \<open>join\<close> apply it.
  Inside an array, null and undefined print as the empty string. An integer below
  \<open>10\<^sup>2\<^sup>1\<close> in magnitude prints as its decimal digits; beyond, the engine switches to
  exponent notation, and its text is the parameter \<open>big\<close>.
\<close>

fun toString_with :: "(int \<Rightarrow> string) \<Rightarrow> jsval \<Rightarrow> string" where
  "toString_with big JUndefined = ''undefined''"
| "toString_with big JNull = ''null''"
| "toString_with big (JBool b) = (if b then ''true'' else ''false'')"
| "toString_with big (JNum n) = (if abs n < 1000000000000000000000 then show_int n else big n)"
| "toString_with big JNaN = ''NaN''"
| "toString_with big (JInfinity negative) = (if negative then ''-Infinity'' else ''Infinity'')"
| "toString_with big (JStr s) = s"
| "toString_with big (JArr xs) =
     join '','' (map (\<lambda>x. if x = JUndefined \<or> x = JNull then [] else toString_with big x) xs)"
| "toString_with big (JObj kvs) = ''[object Object]''"
| "toString_with big (JFunction f) = ''function '' @ f @ ''() { [native code] }''"

section \<open>Helpers of the fiscal tools\<close>

text \<open>What the process reads from outside: environment variables, the clock, the random
  source and the gateway at the other end of the HTTP exchange; and the engine's own results
  where the model does not compute them: the text of a Number of magnitude \<open>10\<^sup>2\<^sup>1\<close> or
  more, the Number for an integer beyond \<open>2\<^sup>5\<^sup>3 - 1\<close>, and \<open>toUpperCase\<close> and
  \<open>substring\<close> on strings with characters outside ASCII.\<close>

record request =
  req_url :: string
  req_method :: string
  req_basic_credentials :: string
  req_body :: jsval

datatype http_outcome =
    FetchRejects string
  | HttpResponse nat "string + jsval"

record env =
  FOCUS_NFE_MASTER_TOKEN :: "string option"
  FOCUS_NFE_API_URL :: "string option"
  date_now :: nat
  math_random36 :: string
  today_ms :: int
  date_ms :: "jsval \<Rightarrow> int option"
  iso_payload :: string
  iso_now :: string
  gateway :: "request \<Rightarrow> http_outcome"
  number_toString :: "int \<Rightarrow> string"
  number_beyond_safe :: "int \<Rightarrow> jsval"
  string_toUpperCase :: "string \<Rightarrow> string"
  string_substring :: "string \<Rightarrow> nat \<Rightarrow> nat \<Rightarrow> string"

definition toString :: "env \<Rightarrow> jsval \<Rightarrow> string" where
  "toString e v = toString_with (number_toString e) v"

definition env_var :: "string option \<Rightarrow> jsval" where
  "env_var v = (case v of None \<Rightarrow> JUndefined | Some s \<Rightarrow> JStr s)"

subsection \<open>parseInt, radix 10\<close>

definition is_digit :: "char \<Rightarrow> bool" where
  "is_digit c = (48 \<le> (of_char c :: nat) \<and> (of_char c :: nat) \<le> 57)"

text \<open>The white space and line terminators that \<open>parseInt\<close> skips, in UTF-8: the length in
  bytes of such a character at the start of the string, or 0. These are U+0009 to U+000D,
  U+0020, U+00A0, U+1680, U+2000 to U+200A, U+2028, U+2029, U+202F, U+205F, U+3000, U+FEFF.\<close>

definition white_space_prefix :: "string \<Rightarrow> nat" where
  "white_space_prefix s =
     (case s of
        [] \<Rightarrow> 0
      | c # r \<Rightarrow>
          if c \<in> {CHR 0x09, CHR 0x0A, CHR 0x0B, CHR 0x0C, CHR 0x0D, CHR 0x20} then 1
          else if take 2 s = [CHR 0xC2, CHR 0xA0] then 2
          else if take 3 s \<in> set
                    [[CHR 0xE1, CHR 0x9A, CHR 0x80],
                     [CHR 0xE2, CHR 0x80, CHR 0x80], [CHR 0xE2, CHR 0x80, CHR 0x81],
                     [CHR 0xE2, CHR 0x80, CHR 0x82], [CHR 0xE2, CHR 0x80, CHR 0x83],
                     [CHR 0xE2, CHR 0x80, CHR 0x84], [CHR 0xE2, CHR 0x80, CHR 0x85],
                     [CHR 0xE2, CHR 0x80, CHR 0x86], [CHR 0xE2, CHR 0x80, CHR 0x87],
                     [CHR 0xE2, CHR 0x80, CHR 0x88], [CHR 0xE2, CHR 0x80, CHR 0x89],
                     [CHR 0xE2, CHR 0x80, CHR 0x8A],
                     [CHR 0xE2, CHR 0x80, CHR 0xA8], [CHR 0xE2, CHR 0x80, CHR 0xA9],
                     [CHR 0xE2, CHR 0x80, CHR 0xAF], [CHR 0xE2, CHR 0x81, CHR 0x9F],
                     [CHR 0xE3, CHR 0x80, CHR 0x80], [CHR 0xEF, CHR 0xBB, CHR 0xBF]]
          then 3
          else 0)"

function skip_space :: "string \<Rightarrow> string" where
  "skip_space s = (if white_space_prefix s = 0 then s else skip_space (drop (white_space_prefix s) s))"
  by pat_completeness auto
termination
proof (relation "measure length")
  fix s :: string
  assume skipped: "white_space_prefix s \<noteq> 0"
  then have "s \<noteq> []" by (cases s) (simp_all add: white_space_prefix_def)
  with skipped show "(drop (white_space_prefix s) s, s) \<in> measure length" by simp
qed simp

declare skip_space.simps [simp del]

definition digit_val :: "char \<Rightarrow> int" where
  "digit_val c = int (of_char c) - 48"

definition digits_value :: "string \<Rightarrow> int" where
  "digits_value ds = foldl (\<lambda>acc c. 10 * acc + digit_val c) 0 ds"

text \<open>\<open>parseInt(v, 10)\<close>. Up to \<open>2\<^sup>5\<^sup>3 - 1\<close> the integer denoted by the digits is a Number;
  beyond, the Number returned is the engine's rounding of it, the parameter
  \<open>number_beyond_safe\<close>.\<close>

definition parseInt :: "env \<Rightarrow> jsval \<Rightarrow> jsval" where
  "parseInt e v =
     (let s = skip_space (toString e v);
          neg = (s \<noteq> [] \<and> hd s = CHR ''-'');
          t = (if s \<noteq> [] \<and> (hd s = CHR ''-'' \<or> hd s = CHR ''+'') then tl s else s);
          ds = takeWhile is_digit t
      in if ds = [] then JNaN
         else if digits_value ds \<le> 9007199254740991
         then JNum (if neg then - digits_value ds else digits_value ds)
         else number_beyond_safe e (if neg then - digits_value ds else digits_value ds))"

definition resolveFocusToken :: "env \<Rightarrow> row \<Rightarrow> js_exn + jsval" where
  "resolveFocusToken e cfg =
     (let ambiente = js_or (col cfg ''focus_nfe_ambiente'') (JStr ''homologacao'');
          token =
            js_or (js_or (if ambiente = JStr ''producao''
                          then col cfg ''focus_nfe_token_producao''
                          else col cfg ''focus_nfe_token_homologacao'')
                         (col cfg ''focus_nfe_token''))
                  (env_var (FOCUS_NFE_MASTER_TOKEN e))
      in if \<not> truthy token
         then Inl (Error (''Token Focus NFe n'' @ a_tilde @ ''o configurado para ambiente '' @ dquote
                          @ toString e ambiente @ dquote @ ''. Configure pelo app web.''))
         else Inr token)"

definition resolveFocusApiUrl :: "env \<Rightarrow> row \<Rightarrow> jsval" where
  "resolveFocusApiUrl e cfg =
     (let ambiente = js_or (col cfg ''focus_nfe_ambiente'') (JStr ''homologacao'')
      in if ambiente = JStr ''producao''
         then js_or (env_var (FOCUS_NFE_API_URL e)) (JStr ''https://api.focusnfe.com.br'')
         else JStr ''https://homologacao.focusnfe.com.br'')"

subsection \<open>Property reads and string methods\<close>

definition squote :: string where "squote = [CHR 0x27]"

text \<open>Reading a named property of a value that is neither null nor undefined. The keys of
  an object are distinct. Engine-raised errors carry the wording of V8.\<close>

text \<open>The length of a string in UTF-16 code units, from its UTF-8 bytes: one for each
  character, two for a character of four bytes.\<close>

definition utf16_length :: "string \<Rightarrow> nat" where
  "utf16_length s =
     length (filter (\<lambda>c. \<not> (128 \<le> (of_char c :: nat) \<and> (of_char c :: nat) < 192)) s)
     + length (filter (\<lambda>c. 240 \<le> (of_char c :: nat)) s)"

fun get_prop :: "jsval \<Rightarrow> string \<Rightarrow> jsval" where
  "get_prop (JObj kvs) k = (case map_of kvs k of None \<Rightarrow> JUndefined | Some v \<Rightarrow> v)"
| "get_prop (JArr xs) k = (if k = ''length'' then JNum (int (length xs)) else JUndefined)"
| "get_prop (JStr s) k = (if k = ''length'' then JNum (int (utf16_length s)) else JUndefined)"
| "get_prop v k = JUndefined"

definition nullish :: "jsval \<Rightarrow> bool" where
  "nullish v = (v = JUndefined \<or> v = JNull)"

definition cannot_read :: "jsval \<Rightarrow> string \<Rightarrow> js_exn" where
  "cannot_read v k =
     TypeError (''Cannot read properties of '' @ (if v = JNull then ''null'' else ''undefined'')
                @ '' (reading '' @ squote @ k @ squote @ '')'')"

text \<open>\<open>v.k\<close>, which throws on null and undefined, and \<open>v?.k\<close>, which does not.\<close>

definition read_prop :: "jsval \<Rightarrow> string \<Rightarrow> js_exn + jsval" where
  "read_prop v k = (if nullish v then Inl (cannot_read v k) else Inr (get_prop v k))"

definition opt_prop :: "jsval \<Rightarrow> string \<Rightarrow> jsval" where
  "opt_prop v k = (if nullish v then JUndefined else get_prop v k)"

text \<open>The receiver of a string method \<open>expr.meth(...)\<close>: only a string has the method.\<close>

definition string_receiver :: "string \<Rightarrow> string \<Rightarrow> jsval \<Rightarrow> js_exn + string" where
  "string_receiver expr meth v =
     (case v of
        JStr s \<Rightarrow> Inr s
      | JUndefined \<Rightarrow> Inl (cannot_read v meth)
      | JNull \<Rightarrow> Inl (cannot_read v meth)
      | _ \<Rightarrow> Inl (TypeError (expr @ ''.'' @ meth @ '' is not a function'')))"

text \<open>\<open>s.replace(/\D/g, '')\<close> keeps the characters 0 to 9.\<close>

definition strip_non_digits :: "string \<Rightarrow> string" where
  "strip_non_digits s = filter is_digit s"

text \<open>\<open>v?.replace(/\D/g, '')\<close>\<close>

definition opt_strip_non_digits :: "string \<Rightarrow> jsval \<Rightarrow> js_exn + jsval" where
  "opt_strip_non_digits expr v =
     (if nullish v then Inr JUndefined
      else case string_receiver expr ''replace'' v of
             Inl x \<Rightarrow> Inl x
           | Inr s \<Rightarrow> Inr (JStr (strip_non_digits s)))"

definition is_ascii :: "string \<Rightarrow> bool" where
  "is_ascii s = list_all (\<lambda>c. (of_char c :: nat) < 128) s"

text \<open>\<open>s.toUpperCase()\<close>: on an ASCII string the letters a to z are mapped and nothing else
  changes; on any other string the result is the engine's.\<close>

definition upper_char :: "char \<Rightarrow> char" where
  "upper_char c =
     (if 97 \<le> (of_char c :: nat) \<and> (of_char c :: nat) \<le> 122
      then char_of ((of_char c :: nat) - 32) else c)"

definition toUpperCase :: "env \<Rightarrow> string \<Rightarrow> string" where
  "toUpperCase e s = (if is_ascii s then map upper_char s else string_toUpperCase e s)"

text \<open>\<open>s.substring(i, j)\<close> with \<open>i \<le> j\<close>: when the bytes before \<open>j\<close> are ASCII they are the
  code units before \<open>j\<close>; otherwise the result is the engine's.\<close>

definition substring :: "env \<Rightarrow> string \<Rightarrow> nat \<Rightarrow> nat \<Rightarrow> string" where
  "substring e s i j = (if is_ascii (take j s) then take (j - i) (drop i s) else string_substring e s i j)"

definition hex_char :: "nat \<Rightarrow> char" where
  "hex_char d = (if d < 10 then char_of (48 + d) else char_of (55 + d))"

definition uri_unreserved :: "char \<Rightarrow> bool" where
  "uri_unreserved c =
     (let n = (of_char c :: nat)
      in (65 \<le> n \<and> n \<le> 90) \<or> (97 \<le> n \<and> n \<le> 122) \<or> (48 \<le> n \<and> n \<le> 57)
         \<or> c \<in> set ''-_.!~*()'' \<or> n = 39)"

definition encodeURIComponent :: "string \<Rightarrow> string" where
  "encodeURIComponent s =
     concat (map (\<lambda>c. if uri_unreserved c then [c]
                       else [CHR ''%'', hex_char ((of_char c :: nat) div 16),
                             hex_char ((of_char c :: nat) mod 16)]) s)"

text \<open>What \<open>JSON.stringify\<close> keeps of a value: a property whose value is undefined or
  a function is left out; such an array element, not-a-number and the infinities become null.\<close>

fun json_omits :: "jsval \<Rightarrow> bool" where
  "json_omits JUndefined = True"
| "json_omits (JFunction f) = True"
| "json_omits v = False"

fun json :: "jsval \<Rightarrow> jsval" where
  "json (JArr xs) = JArr (map (\<lambda>x. if json_omits x then JNull else json x) xs)"
| "json (JObj kvs) =
     JObj (map (\<lambda>kv. (fst kv, json (snd kv))) (filter (\<lambda>kv. \<not> json_omits (snd kv)) kvs))"
| "json JNaN = JNull"
| "json (JInfinity negative) = JNull"
| "json (JFunction f) = JUndefined"
| "json v = v"

subsection \<open>Code tables and small helpers\<close>

definition ICMS_ORIGEM_MAP :: "(string \<times> jsval) list" where
  "ICMS_ORIGEM_MAP =
     [(''nacional'', JStr ''0''),
      (''estrangeira_importacao'', JStr ''1''),
      (''estrangeira_mercado_interno'', JStr ''2''),
      (''nacional_importado_40_70'', JStr ''3''),
      (''nacional_processos'', JStr ''4''),
      (''nacional_importado_70'', JStr ''5''),
      (''estrangeira_sem_similar'', JStr ''6''),
      (''estrangeira_adquirida_mercado'', JStr ''7''),
      (''nacional_importado_70_substituido'', JStr ''8'')]"

definition PRESENCA_MAP :: "(string \<times> jsval) list" where
  "PRESENCA_MAP =
     [(''nao_se_aplica'', JNum 0),
      (''presencial'', JNum 1),
      (''internet'', JNum 2),
      (''televendas'', JNum 3),
      (''entrega_domicilio'', JNum 4),
      (''presencial_fora'', JNum 5),
      (''outros'', JNum 9)]"

definition FINALIDADE_MAP :: "(string \<times> jsval) list" where
  "FINALIDADE_MAP =
     [(''normal'', JNum 1),
      (''complementar'', JNum 2),
      (''ajuste'', JNum 3),
      (''devolucao'', JNum 4)]"

text \<open>The members every object literal inherits from \<open>Object.prototype\<close>: each is a function,
  given with its name; \<open>__proto__\<close> reads as the prototype itself, an object with no
  enumerable member.\<close>

definition Object_prototype :: "(string \<times> jsval) list" where
  "Object_prototype =
     [(''constructor'', JFunction ''Object''),
      (''__defineGetter__'', JFunction ''__defineGetter__''),
      (''__defineSetter__'', JFunction ''__defineSetter__''),
      (''hasOwnProperty'', JFunction ''hasOwnProperty''),
      (''__lookupGetter__'', JFunction ''__lookupGetter__''),
      (''__lookupSetter__'', JFunction ''__lookupSetter__''),
      (''isPrototypeOf'', JFunction ''isPrototypeOf''),
      (''propertyIsEnumerable'', JFunction ''propertyIsEnumerable''),
      (''toString'', JFunction ''toString''),
      (''valueOf'', JFunction ''valueOf''),
      (''__proto__'', JObj []),
      (''toLocaleString'', JFunction ''toLocaleString'')]"

text \<open>\<open>TABLE[key]\<close>: the key is converted to a string; the table's own member of that name,
  else the inherited one.\<close>

definition table_index :: "env \<Rightarrow> (string \<times> jsval) list \<Rightarrow> jsval \<Rightarrow> jsval" where
  "table_index e t key = get_prop (JObj (t @ Object_prototype)) (toString e key)"

definition DEFAULT_CSOSN :: string where "DEFAULT_CSOSN = ''102''"
definition PIS_COFINS_CST_SIMPLES :: string where "PIS_COFINS_CST_SIMPLES = ''99''"

definition generateFocusRef :: "env \<Rightarrow> string \<Rightarrow> string \<Rightarrow> string" where
  "generateFocusRef e orgId tipo =
     (let timestamp = radix_digits 36 (date_now e);
          random = substring e (math_random36 e) 2 8
      in tipo @ ''_'' @ substring e orgId 0 8 @ ''_'' @ timestamp @ ''_'' @ random)"

definition isMesmoEstado :: "env \<Rightarrow> jsval \<Rightarrow> jsval \<Rightarrow> js_exn + bool" where
  "isMesmoEstado e ufEmitente ufDestinatario =
     (case string_receiver ''ufEmitente'' ''toUpperCase'' ufEmitente of
        Inl x \<Rightarrow> Inl x
      | Inr a \<Rightarrow>
          (case string_receiver ''ufDestinatario'' ''toUpperCase'' ufDestinatario of
             Inl x \<Rightarrow> Inl x
           | Inr b \<Rightarrow> Inr (toUpperCase e a = toUpperCase e b)))"

definition getCfopVenda :: "bool \<Rightarrow> bool \<Rightarrow> string" where
  "getCfopVenda dentroEstado st =
     (if dentroEstado then (if st then ''5405'' else ''5102'')
      else (if st then ''6405'' else ''6102''))"

section \<open>The store and the gateway client\<close>

text \<open>The four tables the tools touch, and the log of requests sent to the gateway. The
  store answers every query; a row holds exactly the columns written to it.\<close>

record world =
  notas_fiscais :: "row list"
  notas_fiscais_itens :: "row list"
  fiscal_config :: "row list"
  fiscal_eventos :: "row list"
  gateway_calls :: "request list"

definition select_eq :: "row list \<Rightarrow> (string \<times> jsval) list \<Rightarrow> row list" where
  "select_eq rows conds = filter (\<lambda>r. list_all (\<lambda>kv. col r (fst kv) = snd kv) conds) rows"

text \<open>\<open>.single()\<close>: the row when exactly one matches, an error otherwise.\<close>

definition single :: "row list \<Rightarrow> row option" where
  "single rows = (case rows of [r] \<Rightarrow> Some r | _ \<Rightarrow> None)"

text \<open>The columns an object sets when it is sent to the store as JSON.\<close>

definition sent_columns :: "(string \<times> jsval) list \<Rightarrow> row" where
  "sent_columns obj =
     map_of (map (\<lambda>kv. (fst kv, json (snd kv))) (filter (\<lambda>kv. \<not> json_omits (snd kv)) obj))"

definition update_eq :: "row list \<Rightarrow> string \<Rightarrow> jsval \<Rightarrow> (string \<times> jsval) list \<Rightarrow> row list" where
  "update_eq rows k v obj = map (\<lambda>r. if col r k = v then r ++ sent_columns obj else r) rows"

definition insert_row :: "row list \<Rightarrow> (string \<times> jsval) list \<Rightarrow> row list" where
  "insert_row rows obj = rows @ [sent_columns obj]"

text \<open>\<open>.order('numero_item', { ascending: true })\<close>: numbers ascending, nulls last.\<close>

definition numero_item_le :: "row \<Rightarrow> row \<Rightarrow> bool" where
  "numero_item_le a b =
     (case (col a ''numero_item'', col b ''numero_item'') of
        (JNum x, JNum y) \<Rightarrow> x \<le> y
      | (_, JNum y) \<Rightarrow> False
      | _ \<Rightarrow> True)"

fun insert_ordered :: "row \<Rightarrow> row list \<Rightarrow> row list" where
  "insert_ordered a [] = [a]"
| "insert_ordered a (b # bs) = (if numero_item_le b a then b # insert_ordered a bs else a # b # bs)"

definition order_by_numero_item :: "row list \<Rightarrow> row list" where
  "order_by_numero_item rows = foldl (\<lambda>acc r. insert_ordered r acc) [] rows"

text \<open>The best-effort message read from the body of a failed response.\<close>

definition erros_mensagem :: "env \<Rightarrow> jsval \<Rightarrow> js_exn + jsval" where
  "erros_mensagem e errorData =
     (let erros = opt_prop errorData ''erros'';
          len = opt_prop erros ''length''
      in if \<not> truthy len then Inr len
         else case erros of
                JArr es \<Rightarrow>
                  (case find nullish es of
                     Some bad \<Rightarrow> Inl (cannot_read bad ''mensagem'')
                   | None \<Rightarrow>
                       Inr (JStr (join ''; ''
                                   (map (\<lambda>x. let m = get_prop x ''mensagem''
                                              in if nullish m then [] else toString e m) es))))
              | _ \<Rightarrow> Inl (TypeError ''errorData.erros.map is not a function''))"

definition error_mensagem :: "env \<Rightarrow> nat \<Rightarrow> jsval \<Rightarrow> js_exn + jsval" where
  "error_mensagem e status errorData =
     (let fallback = JStr (''HTTP '' @ show_int (int status))
      in if truthy (opt_prop errorData ''mensagem'') then Inr (opt_prop errorData ''mensagem'')
         else if truthy (opt_prop errorData ''message'') then Inr (opt_prop errorData ''message'')
         else if truthy (opt_prop errorData ''erro'') then Inr (opt_prop errorData ''erro'')
         else case erros_mensagem e errorData of
                Inl x \<Rightarrow> Inl x
              | Inr m \<Rightarrow> Inr (js_or m fallback))"

text \<open>The request focusFetch sends: the URL, the method (\<open>options.method || 'GET'\<close>), the
  text whose base64 form follows \<open>Basic\<close> in the Authorization header, and the JSON body.\<close>

definition focus_request ::
  "env \<Rightarrow> string \<Rightarrow> string \<Rightarrow> jsval \<Rightarrow> jsval \<Rightarrow> jsval \<Rightarrow> request" where
  "focus_request e endpoint method token apiUrl body =
     \<lparr> req_url = toString e apiUrl @ endpoint,
       req_method = (if method = [] then ''GET'' else method),
       req_basic_credentials = toString e token @ '':'',
       req_body = (if truthy body then json body else JUndefined) \<rparr>"

text \<open>One exchange with the gateway. The request is logged; a rejected fetch, a response
  outside 200 to 299 and a body that is not JSON all end in an exception.\<close>

definition focusFetch ::
  "env \<Rightarrow> world \<Rightarrow> string \<Rightarrow> string \<Rightarrow> jsval \<Rightarrow> jsval \<Rightarrow> jsval \<Rightarrow> (js_exn + jsval) \<times> world" where
  "focusFetch e w endpoint method token apiUrl body =
     (let req = focus_request e endpoint method token apiUrl body;
          w' = w\<lparr> gateway_calls := gateway_calls w @ [req] \<rparr>
      in case gateway e req of
           FetchRejects m \<Rightarrow> (Inl (TypeError m), w')
         | HttpResponse status parsed \<Rightarrow>
             if \<not> (200 \<le> status \<and> status \<le> 299)
             then (let errorData = (case parsed of Inl m \<Rightarrow> JNull | Inr j \<Rightarrow> j)
                   in case error_mensagem e status errorData of
                        Inl x \<Rightarrow> (Inl x, w')
                      | Inr mensagem \<Rightarrow> (Inl (Error (toString e mensagem)), w'))
             else (case parsed of
                     Inl m \<Rightarrow> (Inl (Error m), w')
                   | Inr j \<Rightarrow> (Inr j, w')))"

section \<open>Emission of a goods document (tool emit_nfe)\<close>

text \<open>What a tool call hands back: a text message, the success object (the re-read document
  and the gateway's status), or an exception that leaves the handler.\<close>

datatype emit_result =
    Text string
  | Success "row option" jsval
  | Uncaught js_exn

text \<open>\<open>cfg.certificado_validade && new Date(cfg.certificado_validade) < new Date()\<close>;
  an invalid date compares false.\<close>

definition certificado_expirado :: "env \<Rightarrow> jsval \<Rightarrow> bool" where
  "certificado_expirado e validade =
     (truthy validade \<and> (case date_ms e validade of None \<Rightarrow> False | Some t \<Rightarrow> t < today_ms e))"

text \<open>The loads and checks before anything is built: \<open>Inl\<close> is the message returned early.\<close>

definition nfe_checks ::
  "env \<Rightarrow> world \<Rightarrow> string option \<Rightarrow> string \<Rightarrow> string + (string \<times> row \<times> row list \<times> row)" where
  "nfe_checks e w orgId nota_id =
     (case orgId of
        None \<Rightarrow> Inl (''Erro: orgId obrigat'' @ o_acute @ ''rio'')
      | Some org \<Rightarrow>
     if org = [] then Inl (''Erro: orgId obrigat'' @ o_acute @ ''rio'')
     else case single (select_eq (notas_fiscais w)
                 [(''id'', JStr nota_id), (''organization_id'', JStr org), (''tipo'', JStr ''nfe'')]) of
        None \<Rightarrow> Inl (''NFe n'' @ a_tilde @ ''o encontrada'')
      | Some nota \<Rightarrow>
     if col nota ''status'' \<noteq> JStr ''rascunho''
     then Inl ''Apenas notas em rascunho podem ser emitidas''
     else let itens = order_by_numero_item
                        (select_eq (notas_fiscais_itens w) [(''nota_fiscal_id'', JStr nota_id)])
     in if itens = [] then Inl ''Nota deve ter pelo menos um item''
     else case single (select_eq (fiscal_config w) [(''organization_id'', JStr org)]) of
        None \<Rightarrow> Inl (''Configura'' @ c_cedilla @ a_tilde @ ''o fiscal n'' @ a_tilde
                      @ ''o encontrada. Configure pelo app web.'')
      | Some cfg \<Rightarrow>
     if \<not> truthy (col cfg ''nfe_habilitado'')
     then Inl (''NFe n'' @ a_tilde @ ''o est'' @ a_acute @ '' habilitada na configura''
               @ c_cedilla @ a_tilde @ ''o fiscal'')
     else if certificado_expirado e (col cfg ''certificado_validade'')
     then Inl ''Certificado digital expirado''
     else if \<not> truthy (col nota ''destinatario_nome'') \<or> \<not> truthy (col nota ''destinatario_cpf_cnpj'')
     then Inl (''Dados do destinat'' @ a_acute @ ''rio incompletos (nome e CPF/CNPJ obrigat''
               @ o_acute @ ''rios)'')
     else if \<not> truthy (col nota ''destinatario_logradouro'')
             \<or> \<not> truthy (col nota ''destinatario_municipio'')
             \<or> \<not> truthy (col nota ''destinatario_uf'')
     then Inl (''Endere'' @ c_cedilla @ ''o do destinat'' @ a_acute @ ''rio incompleto'')
     else Inr (org, nota, itens, cfg))"

text \<open>One line item of the payload, numbered from its position.\<close>

definition focusItem :: "env \<Rightarrow> bool \<Rightarrow> nat \<Rightarrow> row \<Rightarrow> js_exn + jsval" where
  "focusItem e dentroEstado index item =
     (case (if truthy (col item ''codigo'') then Inr (col item ''codigo'')
            else case string_receiver ''item.id'' ''substring'' (col item ''id'') of
                   Inl x \<Rightarrow> Inl x
                 | Inr s \<Rightarrow> Inr (JStr (substring e s 0 8))) of
        Inl x \<Rightarrow> Inl x
      | Inr codigo_produto \<Rightarrow>
          Inr (JObj
            [(''numero_item'', JNum (int index + 1)),
             (''codigo_produto'', codigo_produto),
             (''descricao'', col item ''descricao''),
             (''cfop'', js_or (col item ''cfop'') (JStr (getCfopVenda dentroEstado False))),
             (''unidade_comercial'', js_or (col item ''unidade'') (JStr ''UN'')),
             (''quantidade_comercial'', col item ''quantidade''),
             (''valor_unitario_comercial'', col item ''valor_unitario''),
             (''valor_bruto'', col item ''valor_total''),
             (''ncm'', js_or (col item ''ncm'') (JStr ''00000000'')),
             (''cest'', js_or (col item ''cest'') JUndefined),
             (''icms_origem'',
                js_or (table_index e ICMS_ORIGEM_MAP (js_or (col item ''icms_origem'') (JStr ''nacional'')))
                      (JStr ''0'')),
             (''icms_situacao_tributaria'', js_or (col item ''icms_cst'') (JStr DEFAULT_CSOSN)),
             (''pis_situacao_tributaria'', js_or (col item ''pis_cst'') (JStr PIS_COFINS_CST_SIMPLES)),
             (''cofins_situacao_tributaria'',
                js_or (col item ''cofins_cst'') (JStr PIS_COFINS_CST_SIMPLES))]))"

fun map_index :: "(nat \<Rightarrow> 'a \<Rightarrow> js_exn + 'b) \<Rightarrow> nat \<Rightarrow> 'a list \<Rightarrow> js_exn + 'b list" where
  "map_index f i [] = Inr []"
| "map_index f i (x # xs) =
     (case f i x of
        Inl e \<Rightarrow> Inl e
      | Inr y \<Rightarrow> (case map_index f (Suc i) xs of Inl e \<Rightarrow> Inl e | Inr ys \<Rightarrow> Inr (y # ys)))"

definition focusItens :: "env \<Rightarrow> bool \<Rightarrow> row list \<Rightarrow> js_exn + jsval list" where
  "focusItens e dentroEstado itens = map_index (focusItem e dentroEstado) 0 itens"

text \<open>The reference and the payload, built before the guarded block; an exception here
  leaves the handler.\<close>

definition nfe_focusPayload ::
  "env \<Rightarrow> string \<Rightarrow> row \<Rightarrow> row \<Rightarrow> row list \<Rightarrow> js_exn + (string \<times> jsval)" where
  "nfe_focusPayload e org cfg n itens =
     (case isMesmoEstado e (col cfg ''uf'') (col n ''destinatario_uf'') of
        Inl x \<Rightarrow> Inl x
      | Inr dentroEstado \<Rightarrow>
     let focusRef = generateFocusRef e org ''nfe''
     in case focusItens e dentroEstado itens of
        Inl x \<Rightarrow> Inl x
      | Inr items \<Rightarrow>
     case string_receiver ''n.destinatario_cpf_cnpj'' ''replace'' (col n ''destinatario_cpf_cnpj'') of
        Inl x \<Rightarrow> Inl x
      | Inr raw \<Rightarrow>
     let cpfCnpj = strip_non_digits raw;
         isCnpj = (length cpfCnpj = 14)
     in case opt_strip_non_digits ''n.destinatario_telefone?'' (col n ''destinatario_telefone'') of
        Inl x \<Rightarrow> Inl x
      | Inr telefone \<Rightarrow>
     case opt_strip_non_digits ''n.destinatario_cep?'' (col n ''destinatario_cep'') of
        Inl x \<Rightarrow> Inl x
      | Inr cep \<Rightarrow>
     Inr (focusRef, JObj
       ([(''natureza_operacao'', js_or (col n ''natureza_operacao'') (JStr ''Venda de mercadoria'')),
         (''data_emissao'', JStr (iso_payload e)),
         (''tipo_documento'', JNum 1),
         (''finalidade_emissao'',
            js_or (table_index e FINALIDADE_MAP (js_or (col n ''finalidade'') (JStr ''normal''))) (JNum 1)),
         (''consumidor_final'',
            (if col n ''destinatario_tipo'' = JStr ''pessoa_fisica'' then JNum 1 else JNum 0)),
         (''presenca_comprador'',
            js_or (table_index e PRESENCA_MAP (js_or (col n ''indicador_presenca'') (JStr ''nao_se_aplica'')))
                  (JNum 0)),
         (''nome_destinatario'', col n ''destinatario_nome''),
         (if isCnpj then (''cnpj_destinatario'', JStr cpfCnpj) else (''cpf_destinatario'', JStr cpfCnpj)),
         (''inscricao_estadual_destinatario'', js_or (col n ''destinatario_ie'') JUndefined),
         (''telefone_destinatario'', js_or telefone JUndefined),
         (''email_destinatario'', js_or (col n ''destinatario_email'') JUndefined),
         (''logradouro_destinatario'', col n ''destinatario_logradouro''),
         (''numero_destinatario'', js_or (col n ''destinatario_numero'') (JStr ''S/N'')),
         (''complemento_destinatario'', js_or (col n ''destinatario_complemento'') JUndefined),
         (''bairro_destinatario'', js_or (col n ''destinatario_bairro'') (JStr ''Centro'')),
         (''municipio_destinatario'', col n ''destinatario_municipio''),
         (''uf_destinatario'', col n ''destinatario_uf''),
         (''cep_destinatario'', js_or cep (JStr [])),
         (''codigo_municipio_destinatario'',
            js_or (col n ''destinatario_codigo_municipio'') (col cfg ''codigo_municipio'')),
         (''forma_pagamento'',
            JArr [JObj [(''forma_pagamento'', JStr ''90''), (''valor_pagamento'', col n ''valor_total'')]]),
         (''items'', JArr items),
         (''informacoes_adicionais_contribuinte'', js_or (col n ''informacoes_adicionais'') JUndefined)])))"

text \<open>The stored status as a function of the status the gateway reports.\<close>

definition nfe_status :: "jsval \<Rightarrow> string" where
  "nfe_status reported =
     (if reported = JStr ''autorizado'' then ''autorizada''
      else if reported = JStr ''erro_autorizacao'' \<or> reported = JStr ''denegado'' then ''rejeitada''
      else ''processando'')"

text \<open>The columns written back to the document after a successful exchange.\<close>

definition nfe_updateData :: "env \<Rightarrow> row \<Rightarrow> jsval \<Rightarrow> (string \<times> jsval) list" where
  "nfe_updateData e cfg response =
     (let now = iso_now e;
          status = nfe_status (get_prop response ''status'')
      in
        [(''status'', JStr status),
         (''serie'', (if truthy (get_prop response ''serie'')
                      then parseInt e (get_prop response ''serie'') else col cfg ''nfe_serie'')),
         (''chave_acesso'', js_or (get_prop response ''chave_nfe'') JNull),
         (''protocolo'', js_or (get_prop response ''protocolo'') JNull),
         (''focus_nfe_status'', get_prop response ''status''),
         (''status_sefaz'', js_or (get_prop response ''status_sefaz'') JNull),
         (''mensagem_sefaz'', js_or (get_prop response ''mensagem_sefaz'') JNull),
         (''url_xml'', js_or (get_prop response ''caminho_xml_nota_fiscal'') JNull),
         (''url_danfe'', js_or (get_prop response ''caminho_danfe'') JNull),
         (''updated_at'', JStr now)]
        @ (if status = ''autorizada''
           then (''data_emissao'', JStr now)
                # (if truthy (get_prop response ''numero'')
                   then [(''numero'', parseInt e (get_prop response ''numero''))] else [])
           else []))"

text \<open>The writes after a successful exchange: the tenant's counter, the document, the event;
  then the document is read again.\<close>

definition nfe_store_result ::
  "env \<Rightarrow> world \<Rightarrow> string \<Rightarrow> string \<Rightarrow> row \<Rightarrow> jsval \<Rightarrow> emit_result \<times> world" where
  "nfe_store_result e w2 org nota_id cfg response =
     (let now = iso_now e;
          status = nfe_status (get_prop response ''status'');
          updateData = nfe_updateData e cfg response;
          w3 = (if status = ''autorizada'' \<and> truthy (get_prop response ''numero'')
                then w2\<lparr> fiscal_config := update_eq (fiscal_config w2) ''organization_id'' (JStr org)
                          [(''nfe_ultimo_numero'', parseInt e (get_prop response ''numero'')),
                           (''updated_at'', JStr now)] \<rparr>
                else w2);
          w4 = w3\<lparr> notas_fiscais := update_eq (notas_fiscais w3) ''id'' (JStr nota_id) updateData \<rparr>;
          w5 = w4\<lparr> fiscal_eventos := insert_row (fiscal_eventos w4)
                  [(''organization_id'', JStr org),
                   (''nota_fiscal_id'', JStr nota_id),
                   (''tipo'', JStr ''emissao''),
                   (''status'', get_prop response ''status''),
                   (''mensagem'', js_or (get_prop response ''mensagem_sefaz'')
                                        (JStr ''NFe enviada para processamento'')),
                   (''dados'', response),
                   (''created_at'', JStr now)] \<rparr>;
          notaAtualizada = single (select_eq (notas_fiscais w5) [(''id'', JStr nota_id)])
      in (Success notaAtualizada (get_prop response ''status''), w5))"

text \<open>The guarded block: the optimistic write, the credential, the exchange, the final
  writes. \<open>Inl\<close> is the exception thrown, with the state as it was left.\<close>

definition nfe_try ::
  "env \<Rightarrow> world \<Rightarrow> string \<Rightarrow> string \<Rightarrow> row \<Rightarrow> string \<Rightarrow> jsval \<Rightarrow> (js_exn + emit_result) \<times> world" where
  "nfe_try e w org nota_id cfg focusRef focusPayload =
     (let now = iso_now e;
          w1 = w\<lparr> notas_fiscais := update_eq (notas_fiscais w) ''id'' (JStr nota_id)
                  [(''status'', JStr ''processando''), (''focus_nfe_ref'', JStr focusRef),
                   (''updated_at'', JStr now)] \<rparr>
      in case resolveFocusToken e cfg of
           Inl x \<Rightarrow> (Inl x, w1)
         | Inr focusToken \<Rightarrow>
      case focusFetch e w1 (''/v2/nfe?ref='' @ encodeURIComponent focusRef) ''POST''
             focusToken (resolveFocusApiUrl e cfg) focusPayload of
           (Inl x, w2) \<Rightarrow> (Inl x, w2)
         | (Inr response, w2) \<Rightarrow>
      if nullish response then (Inl (cannot_read response ''status''), w2)
      else
      case nfe_store_result e w2 org nota_id cfg response of
        (result, w5) \<Rightarrow> (Inr result, w5))"

text \<open>The handler of the guarded block's exception; the two tools differ in the label of the
  message only.\<close>

definition emit_catch :: "env \<Rightarrow> world \<Rightarrow> string \<Rightarrow> string \<Rightarrow> string \<Rightarrow> js_exn \<Rightarrow> emit_result \<times> world" where
  "emit_catch e w org nota_id label err =
     (let now = iso_now e;
          w1 = w\<lparr> notas_fiscais := update_eq (notas_fiscais w) ''id'' (JStr nota_id)
                  [(''status'', JStr ''erro''), (''mensagem_sefaz'', JStr (message err)),
                   (''updated_at'', JStr now)] \<rparr>;
          w2 = w1\<lparr> fiscal_eventos := insert_row (fiscal_eventos w1)
                  [(''organization_id'', JStr org),
                   (''nota_fiscal_id'', JStr nota_id),
                   (''tipo'', JStr ''erro''),
                   (''status'', JStr ''erro''),
                   (''mensagem'', JStr (message err)),
                   (''dados'', JObj [(''error'', JStr (message err))]),
                   (''created_at'', JStr now)] \<rparr>
      in (Text (''Erro ao emitir '' @ label @ '': '' @ message err), w2))"

definition emit_nfe :: "env \<Rightarrow> world \<Rightarrow> string option \<Rightarrow> string \<Rightarrow> emit_result \<times> world" where
  "emit_nfe e w orgId nota_id =
     (case nfe_checks e w orgId nota_id of
        Inl text \<Rightarrow> (Text text, w)
      | Inr (org, nota, itens, cfg) \<Rightarrow>
          (case nfe_focusPayload e org cfg nota itens of
             Inl x \<Rightarrow> (Uncaught x, w)
           | Inr (focusRef, focusPayload) \<Rightarrow>
               (case nfe_try e w org nota_id cfg focusRef focusPayload of
                  (Inr result, w') \<Rightarrow> (result, w')
                | (Inl err, w') \<Rightarrow> emit_catch e w' org nota_id ''NFe'' err)))"

section \<open>Emission of a service document (tool emit_nfse)\<close>

definition nfse_checks ::
  "env \<Rightarrow> world \<Rightarrow> string option \<Rightarrow> string \<Rightarrow> string + (string \<times> row \<times> row)" where
  "nfse_checks e w orgId nota_id =
     (case orgId of
        None \<Rightarrow> Inl (''Erro: orgId obrigat'' @ o_acute @ ''rio'')
      | Some org \<Rightarrow>
     if org = [] then Inl (''Erro: orgId obrigat'' @ o_acute @ ''rio'')
     else case single (select_eq (notas_fiscais w)
                 [(''id'', JStr nota_id), (''organization_id'', JStr org), (''tipo'', JStr ''nfse'')]) of
        None \<Rightarrow> Inl (''NFSe n'' @ a_tilde @ ''o encontrada'')
      | Some nota \<Rightarrow>
     if col nota ''status'' \<noteq> JStr ''rascunho''
     then Inl ''Apenas notas em rascunho podem ser emitidas''
     else case single (select_eq (fiscal_config w) [(''organization_id'', JStr org)]) of
        None \<Rightarrow> Inl (''Configura'' @ c_cedilla @ a_tilde @ ''o fiscal n'' @ a_tilde
                      @ ''o encontrada. Configure pelo app web.'')
      | Some cfg \<Rightarrow>
     if \<not> truthy (col cfg ''nfse_habilitado'')
     then Inl (''NFSe n'' @ a_tilde @ ''o est'' @ a_acute @ '' habilitada na configura''
               @ c_cedilla @ a_tilde @ ''o fiscal'')
     else if \<not> truthy (col nota ''destinatario_nome'') \<or> \<not> truthy (col nota ''destinatario_cpf_cnpj'')
     then Inl ''Dados do tomador incompletos''
     else Inr (org, nota, cfg))"

definition nfse_focusPayload :: "env \<Rightarrow> string \<Rightarrow> row \<Rightarrow> row \<Rightarrow> js_exn + (string \<times> jsval)" where
  "nfse_focusPayload e org cfg n =
     (let focusRef = generateFocusRef e org ''nfse''
      in case string_receiver ''n.destinatario_cpf_cnpj'' ''replace'' (col n ''destinatario_cpf_cnpj'') of
        Inl x \<Rightarrow> Inl x
      | Inr raw \<Rightarrow>
     let cpfCnpj = strip_non_digits raw;
         isCnpj = (length cpfCnpj = 14)
     in case opt_strip_non_digits ''cfg.cnpj?'' (col cfg ''cnpj'') of
        Inl x \<Rightarrow> Inl x
      | Inr prestador_cnpj \<Rightarrow>
     case opt_strip_non_digits ''n.destinatario_telefone?'' (col n ''destinatario_telefone'') of
        Inl x \<Rightarrow> Inl x
      | Inr telefone \<Rightarrow>
     case opt_strip_non_digits ''n.destinatario_cep?'' (col n ''destinatario_cep'') of
        Inl x \<Rightarrow> Inl x
      | Inr cep \<Rightarrow>
     Inr (focusRef, JObj
       [(''data_emissao'', JStr (iso_payload e)),
        (''natureza_operacao'', JStr ''1''),
        (''prestador'', JObj
           [(''cnpj'', prestador_cnpj),
            (''inscricao_municipal'', col cfg ''inscricao_municipal''),
            (''codigo_municipio'', col cfg ''codigo_municipio'')]),
        (''tomador'', JObj
           [(if isCnpj then (''cnpj'', JStr cpfCnpj) else (''cpf'', JStr cpfCnpj)),
            (''razao_social'', col n ''destinatario_nome''),
            (''email'', js_or (col n ''destinatario_email'') JUndefined),
            (''telefone'', js_or telefone JUndefined),
            (''endereco'', JObj
               [(''logradouro'', js_or (col n ''destinatario_logradouro'') (JStr [])),
                (''numero'', js_or (col n ''destinatario_numero'') (JStr ''S/N'')),
                (''complemento'', js_or (col n ''destinatario_complemento'') (JStr [])),
                (''bairro'', js_or (col n ''destinatario_bairro'') (JStr [])),
                (''codigo_municipio'',
                   js_or (col n ''destinatario_codigo_municipio'') (col cfg ''codigo_municipio'')),
                (''uf'', js_or (col n ''destinatario_uf'') (col cfg ''uf'')),
                (''cep'', js_or cep (JStr []))])]),
        (''servico'', JObj
           [(''aliquota'', js_or (js_or (col n ''aliquota_iss'') (col cfg ''nfse_aliquota_iss'')) (JNum 0)),
            (''discriminacao'',
               js_or (js_or (col n ''discriminacao_servicos'') (col n ''informacoes_adicionais''))
                     (JStr (''Presta'' @ c_cedilla @ a_tilde @ ''o de servi'' @ c_cedilla @ ''os''))),
            (''iss_retido'', (if truthy (col n ''iss_retido'') then JStr ''true'' else JStr ''false'')),
            (''item_lista_servico'',
               js_or (js_or (col n ''codigo_servico'') (col cfg ''nfse_codigo_servico'')) (JStr [])),
            (''valor_servicos'', col n ''valor_total'')])]))"

definition nfse_status :: "jsval \<Rightarrow> string" where
  "nfse_status reported =
     (if reported = JStr ''autorizado'' then ''autorizada''
      else if reported = JStr ''erro_autorizacao'' then ''rejeitada''
      else ''processando'')"

text \<open>The columns written back to the document after a successful exchange.\<close>

definition nfse_updateData :: "env \<Rightarrow> row \<Rightarrow> jsval \<Rightarrow> (string \<times> jsval) list" where
  "nfse_updateData e cfg response =
     (let now = iso_now e;
          status = nfse_status (get_prop response ''status'')
      in
        [(''status'', JStr status),
         (''focus_nfe_status'', get_prop response ''status''),
         (''mensagem_sefaz'', js_or (get_prop response ''mensagem'') JNull),
         (''url_xml'', js_or (get_prop response ''caminho_xml_nota_fiscal'') JNull),
         (''url_pdf'', js_or (get_prop response ''url'') JNull),
         (''updated_at'', JStr now)]
        @ (if status = ''autorizada''
           then (''data_emissao'', JStr now)
                # (if truthy (get_prop response ''numero'')
                   then [(''numero'', parseInt e (get_prop response ''numero''))] else [])
           else []))"

text \<open>The writes after a successful exchange: the tenant's counter, the document, the event;
  then the document is read again.\<close>

definition nfse_store_result ::
  "env \<Rightarrow> world \<Rightarrow> string \<Rightarrow> string \<Rightarrow> row \<Rightarrow> jsval \<Rightarrow> emit_result \<times> world" where
  "nfse_store_result e w2 org nota_id cfg response =
     (let now = iso_now e;
          status = nfse_status (get_prop response ''status'');
          updateData = nfse_updateData e cfg response;
          w3 = (if status = ''autorizada'' \<and> truthy (get_prop response ''numero'')
                then w2\<lparr> fiscal_config := update_eq (fiscal_config w2) ''organization_id'' (JStr org)
                          [(''nfse_ultimo_numero'', parseInt e (get_prop response ''numero'')),
                           (''updated_at'', JStr now)] \<rparr>
                else w2);
          w4 = w3\<lparr> notas_fiscais := update_eq (notas_fiscais w3) ''id'' (JStr nota_id) updateData \<rparr>;
          w5 = w4\<lparr> fiscal_eventos := insert_row (fiscal_eventos w4)
                  [(''organization_id'', JStr org),
                   (''nota_fiscal_id'', JStr nota_id),
                   (''tipo'', JStr ''emissao''),
                   (''status'', get_prop response ''status''),
                   (''mensagem'', js_or (get_prop response ''mensagem'')
                                        (JStr ''NFSe enviada para processamento'')),
                   (''dados'', response),
                   (''created_at'', JStr now)] \<rparr>;
          notaAtualizada = single (select_eq (notas_fiscais w5) [(''id'', JStr nota_id)])
      in (Success notaAtualizada (get_prop response ''status''), w5))"

definition nfse_try ::
  "env \<Rightarrow> world \<Rightarrow> string \<Rightarrow> string \<Rightarrow> row \<Rightarrow> string \<Rightarrow> jsval \<Rightarrow> (js_exn + emit_result) \<times> world" where
  "nfse_try e w org nota_id cfg focusRef focusPayload =
     (let now = iso_now e;
          w1 = w\<lparr> notas_fiscais := update_eq (notas_fiscais w) ''id'' (JStr nota_id)
                  [(''status'', JStr ''processando''), (''focus_nfe_ref'', JStr focusRef),
                   (''updated_at'', JStr now)] \<rparr>
      in case resolveFocusToken e cfg of
           Inl x \<Rightarrow> (Inl x, w1)
         | Inr focusToken \<Rightarrow>
      case focusFetch e w1 (''/v2/nfse?ref='' @ encodeURIComponent focusRef) ''POST''
             focusToken (resolveFocusApiUrl e cfg) focusPayload of
           (Inl x, w2) \<Rightarrow> (Inl x, w2)
         | (Inr response, w2) \<Rightarrow>
      if nullish response then (Inl (cannot_read response ''status''), w2)
      else
      case nfse_store_result e w2 org nota_id cfg response of
        (result, w5) \<Rightarrow> (Inr result, w5))"

definition emit_nfse :: "env \<Rightarrow> world \<Rightarrow> string option \<Rightarrow> string \<Rightarrow> emit_result \<times> world" where
  "emit_nfse e w orgId nota_id =
     (case nfse_checks e w orgId nota_id of
        Inl text \<Rightarrow> (Text text, w)
      | Inr (org, nota, cfg) \<Rightarrow>
          (case nfse_focusPayload e org cfg nota of
             Inl x \<Rightarrow> (Uncaught x, w)
           | Inr (focusRef, focusPayload) \<Rightarrow>
               (case nfse_try e w org nota_id cfg focusRef focusPayload of
                  (Inr result, w') \<Rightarrow> (result, w')
                | (Inl err, w') \<Rightarrow> emit_catch e w' org nota_id ''NFSe'' err)))"

section \<open>Notions of the specification\<close>

text \<open>The number that a string of decimal digits writes.\<close>

definition decimal_number :: "string \<Rightarrow> int" where
  "decimal_number ds = foldl (\<lambda>n ch. 10 * n + (int (of_char ch) - 48)) 0 ds"

text \<open>Case-insensitive equality of region codes: the two strings have the same length and,
  position by position, the same character or the lower-case and the upper-case form of one
  of the letters a to z.\<close>

definition same_letter :: "char \<Rightarrow> char \<Rightarrow> bool" where
  "same_letter c d =
     (c = d
      \<or> (97 \<le> (of_char c :: nat) \<and> (of_char c :: nat) \<le> 122 \<and> (of_char c :: nat) = of_char d + 32)
      \<or> (97 \<le> (of_char d :: nat) \<and> (of_char d :: nat) \<le> 122 \<and> (of_char d :: nat) = of_char c + 32))"

definition equal_ignoring_case :: "string \<Rightarrow> string \<Rightarrow> bool" where
  "equal_ignoring_case a b = list_all2 same_letter a b"

section \<open>A sample tenant\<close>

text \<open>One tenant with a draft goods document of one line item and a draft service document,
  and gateways that authorize, reject at transport level, or answer with a business error.\<close>

definition sample_nfe :: row where
  "sample_nfe = map_of
     [(''id'', JStr ''n1''), (''organization_id'', JStr ''org-0001-xyz''), (''tipo'', JStr ''nfe''),
      (''status'', JStr ''rascunho''), (''destinatario_nome'', JStr ''Ana''),
      (''destinatario_cpf_cnpj'', JStr ''123.456.789-09''),
      (''destinatario_logradouro'', JStr ''Rua A''), (''destinatario_municipio'', JStr ''Campinas''),
      (''destinatario_uf'', JStr ''sp''), (''valor_total'', JNum 100)]"

definition sample_nfe_rj :: row where
  "sample_nfe_rj = sample_nfe(''destinatario_uf'' \<mapsto> JStr ''RJ'')"

definition sample_nfse :: row where
  "sample_nfse = map_of
     [(''id'', JStr ''s1''), (''organization_id'', JStr ''org-0001-xyz''), (''tipo'', JStr ''nfse''),
      (''status'', JStr ''rascunho''), (''destinatario_nome'', JStr ''Loja B''),
      (''destinatario_cpf_cnpj'', JStr ''12.345.678/0001-95''), (''valor_total'', JNum 80)]"

definition sample_item :: row where
  "sample_item = map_of
     [(''id'', JStr ''item-0001-abc''), (''nota_fiscal_id'', JStr ''n1''), (''numero_item'', JNum 1),
      (''descricao'', JStr ''Caneta''), (''quantidade'', JNum 2), (''valor_unitario'', JNum 50),
      (''valor_total'', JNum 100)]"

definition sample_config :: row where
  "sample_config = map_of
     [(''organization_id'', JStr ''org-0001-xyz''), (''nfe_habilitado'', JBool True),
      (''nfse_habilitado'', JBool True), (''uf'', JStr ''SP''), (''cnpj'', JStr ''11.222.333/0001-81''),
      (''certificado_validade'', JNull),
      (''nfe_ultimo_numero'', JNum 200), (''nfse_ultimo_numero'', JNum 200),
      (''focus_nfe_token'', JStr ''tok'')]"

definition sample_config_no_token :: row where
  "sample_config_no_token = sample_config(''focus_nfe_token'' \<mapsto> JNull)"

definition sample_world :: world where
  "sample_world =
     \<lparr> notas_fiscais = [sample_nfe, sample_nfse], notas_fiscais_itens = [sample_item],
       fiscal_config = [sample_config], fiscal_eventos = [], gateway_calls = [] \<rparr>"

definition sample_world_no_token :: world where
  "sample_world_no_token = sample_world\<lparr> fiscal_config := [sample_config_no_token] \<rparr>"

definition sample_world_emitted :: world where
  "sample_world_emitted =
     sample_world\<lparr> notas_fiscais :=
       [sample_nfe(''status'' \<mapsto> JStr ''autorizada''), sample_nfse(''status'' \<mapsto> JStr ''erro'')] \<rparr>"

definition sample_world_no_items :: world where
  "sample_world_no_items = sample_world\<lparr> notas_fiscais_itens := [] \<rparr>"

definition authorizing_gateway :: "request \<Rightarrow> http_outcome" where
  "authorizing_gateway req =
     HttpResponse 200 (Inr (JObj [(''status'', JStr ''autorizado''), (''numero'', JStr ''123'')]))"

definition unreachable_gateway :: "request \<Rightarrow> http_outcome" where
  "unreachable_gateway req = FetchRejects ''fetch failed''"

definition sample_env :: env where
  "sample_env =
     \<lparr> FOCUS_NFE_MASTER_TOKEN = None, FOCUS_NFE_API_URL = None, date_now = 1000,
       math_random36 = ''0.abcdefghij'', today_ms = 5000, date_ms = (\<lambda>v. None),
       iso_payload = ''2026-01-01T00:00:00.000Z'', iso_now = ''2026-01-01T00:00:00.001Z'',
       gateway = authorizing_gateway,
       number_toString = (\<lambda>n. ''1e+21''), number_beyond_safe = (\<lambda>n. JNum 9007199254740992),
       string_toUpperCase = (\<lambda>s. s), string_substring = (\<lambda>s i j. []) \<rparr>"

definition sample_env_unreachable :: env where
  "sample_env_unreachable = sample_env\<lparr> gateway := unreachable_gateway \<rparr>"

definition denying_gateway :: "request \<Rightarrow> http_outcome" where
  "denying_gateway req = HttpResponse 200 (Inr (JObj [(''status'', JStr ''denegado'')]))"

definition rejecting_gateway :: "request \<Rightarrow> http_outcome" where
  "rejecting_gateway req =
     HttpResponse 422 (Inr (JObj [(''codigo'', JStr ''nao_autorizado''),
                                  (''mensagem'', JStr ''CNPJ do emitente nao autorizado'')]))"

definition sample_env_denying :: env where
  "sample_env_denying = sample_env\<lparr> gateway := denying_gateway \<rparr>"

definition sample_env_rejecting :: env where
  "sample_env_rejecting = sample_env\<lparr> gateway := rejecting_gateway \<rparr>"

text \<open>The same tenant with a certificate whose expiry date lies before the clock.\<close>

definition past_date :: "jsval \<Rightarrow> int option" where
  "past_date v = Some 1000"

definition sample_env_expired :: env where
  "sample_env_expired = sample_env\<lparr> date_ms := past_date \<rparr>"

definition sample_world_expired :: world where
  "sample_world_expired =
     sample_world\<lparr> fiscal_config := [sample_config(''certificado_validade'' \<mapsto> JStr ''2020-01-01'')] \<rparr>"

section \<open>Reading columns\<close>

lemma col_upd: "col (r(k \<mapsto> v)) k' = (if k' = k then v else col r k')"
  by (simp add: col_def)

lemma col_empty: "col Map.empty k = JUndefined"
  by (simp add: col_def)

lemmas sample_defs =
  sample_nfe_def sample_nfse_def sample_item_def sample_config_def sample_config_no_token_def
  sample_world_def sample_world_no_token_def sample_world_emitted_def sample_world_no_items_def
  authorizing_gateway_def unreachable_gateway_def sample_env_def sample_env_unreachable_def
  denying_gateway_def rejecting_gateway_def sample_env_denying_def sample_env_rejecting_def
  past_date_def sample_env_expired_def sample_world_expired_def

section \<open>The configuration resolver\<close>

text \<open>
  C9. When the tenant's environment field is unset or empty (any falsy value), the endpoint
  resolver returns the fixed sandbox URL, both resolvers give exactly what they give for the
  environment \<open>homologacao\<close>, and a non-empty sandbox credential slot is the credential
  returned: it is consulted before the legacy field and the master credential.
\<close>

theorem unset_ambiente_is_homologacao:
  assumes "\<not> truthy (col cfg ''focus_nfe_ambiente'')"
  shows "resolveFocusApiUrl e cfg = JStr ''https://homologacao.focusnfe.com.br''
       \<and> resolveFocusApiUrl e cfg = resolveFocusApiUrl e (cfg(''focus_nfe_ambiente'' \<mapsto> JStr ''homologacao''))
       \<and> resolveFocusToken e cfg = resolveFocusToken e (cfg(''focus_nfe_ambiente'' \<mapsto> JStr ''homologacao''))
       \<and> (truthy (col cfg ''focus_nfe_token_homologacao'')
            \<longrightarrow> resolveFocusToken e cfg = Inr (col cfg ''focus_nfe_token_homologacao''))"
  using assms
  by (simp add: resolveFocusApiUrl_def resolveFocusToken_def js_or_def Let_def col_upd)

theorem unset_ambiente_is_homologacao_witness:
  "\<not> truthy (col (map_of [(''focus_nfe_ambiente'', JStr []), (''focus_nfe_token_producao'', JStr ''p''),
                            (''focus_nfe_token_homologacao'', JStr ''h'')]) ''focus_nfe_ambiente'')
   \<and> resolveFocusApiUrl sample_env
         (map_of [(''focus_nfe_ambiente'', JStr []), (''focus_nfe_token_producao'', JStr ''p''),
                  (''focus_nfe_token_homologacao'', JStr ''h'')])
       = JStr ''https://homologacao.focusnfe.com.br''
   \<and> resolveFocusToken sample_env
         (map_of [(''focus_nfe_ambiente'', JStr []), (''focus_nfe_token_producao'', JStr ''p''),
                  (''focus_nfe_token_homologacao'', JStr ''h'')])
       = Inr (JStr ''h'')"
  using unset_ambiente_is_homologacao
          [of "map_of [(''focus_nfe_ambiente'', JStr []), (''focus_nfe_token_producao'', JStr ''p''),
                       (''focus_nfe_token_homologacao'', JStr ''h'')]" sample_env]
  by (simp add: col_upd col_empty resolveFocusApiUrl_def resolveFocusToken_def js_or_def Let_def)

section \<open>Preconditions of emission\<close>

text \<open>
  C5. When the document found for the tenant and kind is not in status \<open>rascunho\<close>, each
  of the two emit tools returns the validation message and the whole stored state (every
  table, hence every field of the document, and the log of gateway calls) is unchanged.
\<close>

theorem not_draft_emit_rejected:
  "(single (select_eq (notas_fiscais w)
       [(''id'', JStr nota_id), (''organization_id'', JStr org), (''tipo'', JStr ''nfe'')]) = Some nota
     \<and> org \<noteq> [] \<and> col nota ''status'' \<noteq> JStr ''rascunho''
     \<longrightarrow> emit_nfe e w (Some org) nota_id = (Text ''Apenas notas em rascunho podem ser emitidas'', w))
   \<and> (single (select_eq (notas_fiscais w)
       [(''id'', JStr nota_id), (''organization_id'', JStr org), (''tipo'', JStr ''nfse'')]) = Some nota
     \<and> org \<noteq> [] \<and> col nota ''status'' \<noteq> JStr ''rascunho''
     \<longrightarrow> emit_nfse e w (Some org) nota_id = (Text ''Apenas notas em rascunho podem ser emitidas'', w))"
  by (simp add: emit_nfe_def nfe_checks_def emit_nfse_def nfse_checks_def)

theorem not_draft_emit_rejected_witness:
  "single (select_eq (notas_fiscais sample_world_emitted)
       [(''id'', JStr ''n1''), (''organization_id'', JStr ''org-0001-xyz''), (''tipo'', JStr ''nfe'')])
     = Some (sample_nfe(''status'' \<mapsto> JStr ''autorizada''))
   \<and> col (sample_nfe(''status'' \<mapsto> JStr ''autorizada'')) ''status'' \<noteq> JStr ''rascunho''
   \<and> emit_nfe sample_env sample_world_emitted (Some ''org-0001-xyz'') ''n1''
       = (Text ''Apenas notas em rascunho podem ser emitidas'', sample_world_emitted)
   \<and> single (select_eq (notas_fiscais sample_world_emitted)
       [(''id'', JStr ''s1''), (''organization_id'', JStr ''org-0001-xyz''), (''tipo'', JStr ''nfse'')])
     = Some (sample_nfse(''status'' \<mapsto> JStr ''erro''))
   \<and> col (sample_nfse(''status'' \<mapsto> JStr ''erro'')) ''status'' \<noteq> JStr ''rascunho''
   \<and> emit_nfse sample_env sample_world_emitted (Some ''org-0001-xyz'') ''s1''
       = (Text ''Apenas notas em rascunho podem ser emitidas'', sample_world_emitted)"
proof -
  have nfe: "single (select_eq (notas_fiscais sample_world_emitted)
       [(''id'', JStr ''n1''), (''organization_id'', JStr ''org-0001-xyz''), (''tipo'', JStr ''nfe'')])
     = Some (sample_nfe(''status'' \<mapsto> JStr ''autorizada''))"
    by (simp add: sample_defs select_eq_def single_def col_upd col_empty)
  have nfse: "single (select_eq (notas_fiscais sample_world_emitted)
       [(''id'', JStr ''s1''), (''organization_id'', JStr ''org-0001-xyz''), (''tipo'', JStr ''nfse'')])
     = Some (sample_nfse(''status'' \<mapsto> JStr ''erro''))"
    by (simp add: sample_defs select_eq_def single_def col_upd col_empty)
  show ?thesis
    using nfe nfse
      not_draft_emit_rejected [of sample_world_emitted "''n1''" "''org-0001-xyz''"
         "sample_nfe(''status'' \<mapsto> JStr ''autorizada'')" sample_env]
      not_draft_emit_rejected [of sample_world_emitted "''s1''" "''org-0001-xyz''"
         "sample_nfse(''status'' \<mapsto> JStr ''erro'')" sample_env]
    by (simp add: col_upd)
qed

text \<open>
  C6. When the goods document found for the tenant has no line item, emit_nfe returns a
  validation message (the draft-only message when the document is not a draft, the
  at-least-one-item message otherwise) with the stored state and the log of gateway calls
  unchanged: no request is sent and no status is written.
\<close>

theorem no_items_emit_rejected:
  assumes "single (select_eq (notas_fiscais w)
       [(''id'', JStr nota_id), (''organization_id'', JStr org), (''tipo'', JStr ''nfe'')]) = Some nota"
    and "org \<noteq> []"
    and "select_eq (notas_fiscais_itens w) [(''nota_fiscal_id'', JStr nota_id)] = []"
  shows "emit_nfe e w (Some org) nota_id =
           (Text (if col nota ''status'' \<noteq> JStr ''rascunho''
                  then ''Apenas notas em rascunho podem ser emitidas''
                  else ''Nota deve ter pelo menos um item''), w)
         \<and> gateway_calls (snd (emit_nfe e w (Some org) nota_id)) = gateway_calls w
         \<and> notas_fiscais (snd (emit_nfe e w (Some org) nota_id)) = notas_fiscais w"
  using assms
  by (simp add: emit_nfe_def nfe_checks_def order_by_numero_item_def)

theorem no_items_emit_rejected_witness:
  "single (select_eq (notas_fiscais sample_world_no_items)
       [(''id'', JStr ''n1''), (''organization_id'', JStr ''org-0001-xyz''), (''tipo'', JStr ''nfe'')])
     = Some sample_nfe
   \<and> select_eq (notas_fiscais_itens sample_world_no_items) [(''nota_fiscal_id'', JStr ''n1'')] = []
   \<and> emit_nfe sample_env sample_world_no_items (Some ''org-0001-xyz'') ''n1''
       = (Text ''Nota deve ter pelo menos um item'', sample_world_no_items)
   \<and> gateway_calls (snd (emit_nfe sample_env sample_world_no_items (Some ''org-0001-xyz'') ''n1'')) = []"
proof -
  have found: "single (select_eq (notas_fiscais sample_world_no_items)
       [(''id'', JStr ''n1''), (''organization_id'', JStr ''org-0001-xyz''), (''tipo'', JStr ''nfe'')])
     = Some sample_nfe"
    by (simp add: sample_defs select_eq_def single_def col_upd col_empty)
  have none: "select_eq (notas_fiscais_itens sample_world_no_items) [(''nota_fiscal_id'', JStr ''n1'')] = []"
    by (simp add: sample_defs select_eq_def)
  have draft: "col sample_nfe ''status'' = JStr ''rascunho''"
    by (simp add: sample_defs col_upd col_empty)
  have calls: "gateway_calls sample_world_no_items = []"
    by (simp add: sample_defs)
  show ?thesis
    using found none draft calls
      no_items_emit_rejected [of sample_world_no_items "''n1''" "''org-0001-xyz''" sample_nfe sample_env]
    by simp
qed

section \<open>Effects of the store operations\<close>

lemma col_override: "col (r ++ s) c = (case s c of None \<Rightarrow> col r c | Some x \<Rightarrow> x)"
  by (simp add: col_def map_add_def split: option.splits)

lemma sent_columns_Nil: "sent_columns [] c = None"
  by (simp add: sent_columns_def)

lemma sent_columns_Cons:
  "sent_columns ((k, v) # obj) c = (if \<not> json_omits v \<and> c = k then Some (json v) else sent_columns obj c)"
  by (simp add: sent_columns_def)

lemma update_eq_hit:
  assumes "r' \<in> set (update_eq rows k v obj)" and "col r' k = v"
  shows "\<exists>r\<in>set rows. col r k = v \<and> r' = r ++ sent_columns obj"
proof -
  from assms(1) obtain r where r: "r \<in> set rows" and r': "r' = (if col r k = v then r ++ sent_columns obj else r)"
    by (auto simp: update_eq_def)
  show ?thesis
  proof (cases "col r k = v")
    case True
    with r r' show ?thesis by auto
  next
    case False
    with r' assms(2) show ?thesis by simp
  qed
qed

lemma focusFetch_world:
  "snd (focusFetch e w ep m tok url body)
     = w\<lparr> gateway_calls := gateway_calls w @ [focus_request e ep m tok url body] \<rparr>"
  by (simp add: focusFetch_def Let_def split: http_outcome.splits sum.splits)

lemma focusFetch_Inr:
  assumes "fst (focusFetch e w ep m tok url body) = Inr response"
  shows "\<exists>st. gateway e (focus_request e ep m tok url body) = HttpResponse st (Inr response)"
  using assms
  by (auto simp: focusFetch_def Let_def split: http_outcome.splits sum.splits if_splits)

lemma emit_catch_effect:
  assumes "emit_catch e w org nid label err = (res, w')"
  shows "res = Text (''Erro ao emitir '' @ label @ '': '' @ message err)"
    and "notas_fiscais w' = update_eq (notas_fiscais w) ''id'' (JStr nid)
           [(''status'', JStr ''erro''), (''mensagem_sefaz'', JStr (message err)),
            (''updated_at'', JStr (iso_now e))]"
    and "fiscal_eventos w' = fiscal_eventos w @
           [sent_columns
              [(''organization_id'', JStr org), (''nota_fiscal_id'', JStr nid),
               (''tipo'', JStr ''erro''), (''status'', JStr ''erro''),
               (''mensagem'', JStr (message err)),
               (''dados'', JObj [(''error'', JStr (message err))]),
               (''created_at'', JStr (iso_now e))]]"
    and "fiscal_config w' = fiscal_config w"
    and "gateway_calls w' = gateway_calls w"
    and "notas_fiscais_itens w' = notas_fiscais_itens w"
  using assms
  by (auto simp: emit_catch_def Let_def insert_row_def)

lemma is_digit_chars: "ch \<in> set ''0123456789'' \<Longrightarrow> is_digit ch"
  by (auto simp: is_digit_def)

lemma white_space_prefix_digit:
  assumes "is_digit ch"
  shows "white_space_prefix (ch # r) = 0"
proof -
  from assms have "ch \<notin> {CHR 0x09, CHR 0x0A, CHR 0x0B, CHR 0x0C, CHR 0x0D, CHR 0x20,
                            CHR 0xC2, CHR 0xE1, CHR 0xE2, CHR 0xE3, CHR 0xEF}"
    by (auto simp: is_digit_def)
  then show ?thesis by (simp add: white_space_prefix_def)
qed

lemma skip_space_digit: "is_digit ch \<Longrightarrow> skip_space (ch # r) = ch # r"
  by (subst skip_space.simps) (simp add: white_space_prefix_digit)

lemma digits_value_decimal: "digits_value ds = decimal_number ds"
  by (simp add: digits_value_def decimal_number_def digit_val_def)

lemma parseInt_digits:
  assumes "ds \<noteq> []" and "\<forall>ch\<in>set ds. is_digit ch" and "decimal_number ds \<le> 9007199254740991"
  shows "parseInt e (JStr ds) = JNum (decimal_number ds)"
proof -
  from assms(1) obtain ch r where ds: "ds = ch # r" by (cases ds) auto
  with assms(2) have d: "is_digit ch" by simp
  then have sign: "ch \<noteq> CHR ''-''" "ch \<noteq> CHR ''+''" by (auto simp: is_digit_def)
  from assms(2) have tw: "takeWhile is_digit ds = ds" by (simp add: takeWhile_eq_all_conv)
  have sk: "skip_space ds = ds" using d ds by (simp add: skip_space_digit)
  show ?thesis
    using assms(1,3) sign tw sk ds
    by (simp add: parseInt_def toString_def Let_def digits_value_decimal)
qed

lemma parseInt_123: "parseInt e (JStr ''123'') = JNum 123"
proof -
  have "parseInt e (JStr ''123'') = JNum (decimal_number ''123'')"
    by (rule parseInt_digits) (simp_all add: is_digit_def decimal_number_def)
  then show ?thesis by (simp add: decimal_number_def)
qed

lemma no_token_message:
  assumes "\<not> truthy (if col cfg ''focus_nfe_ambiente'' = JStr ''producao''
                       then col cfg ''focus_nfe_token_producao''
                       else col cfg ''focus_nfe_token_homologacao'')"
      and "\<not> truthy (col cfg ''focus_nfe_token'')"
      and "\<not> truthy (env_var (FOCUS_NFE_MASTER_TOKEN e))"
  shows "resolveFocusToken e cfg =
           Inl (Error (''Token Focus NFe n'' @ a_tilde @ ''o configurado para ambiente '' @ dquote
                       @ toString e (js_or (col cfg ''focus_nfe_ambiente'') (JStr ''homologacao''))
                       @ dquote @ ''. Configure pelo app web.''))"
  using assms
  by (auto simp: resolveFocusToken_def js_or_def Let_def split: if_splits)

section \<open>The guarded block of emit_nfe\<close>

lemma nfe_store_result_effect:
  assumes "nfe_store_result e w2 org nid cfg response = (res, w')"
  shows "res = Success (single (select_eq (notas_fiscais w') [(''id'', JStr nid)])) (get_prop response ''status'')"
    and "notas_fiscais w' = update_eq (notas_fiscais w2) ''id'' (JStr nid) (nfe_updateData e cfg response)"
    and "fiscal_config w' =
           (if nfe_status (get_prop response ''status'') = ''autorizada'' \<and> truthy (get_prop response ''numero'')
            then update_eq (fiscal_config w2) ''organization_id'' (JStr org)
                   [(''nfe_ultimo_numero'', parseInt e (get_prop response ''numero'')),
                    (''updated_at'', JStr (iso_now e))]
            else fiscal_config w2)"
    and "gateway_calls w' = gateway_calls w2"
    and "length (fiscal_eventos w') = Suc (length (fiscal_eventos w2))"
  using assms
  by (auto simp: nfe_store_result_def Let_def insert_row_def)

lemma nfe_try_returns:
  assumes "nfe_try e w org nid cfg ref p = (Inr res, w')"
  shows "\<exists>response w2 req st.
           \<not> nullish response \<and> nfe_store_result e w2 org nid cfg response = (res, w')
           \<and> fiscal_config w2 = fiscal_config w \<and> fiscal_eventos w2 = fiscal_eventos w
           \<and> gateway_calls w2 = gateway_calls w @ [req] \<and> gateway e req = HttpResponse st (Inr response)"
proof -
  define w1 where "w1 = w\<lparr> notas_fiscais := update_eq (notas_fiscais w) ''id'' (JStr nid)
                  [(''status'', JStr ''processando''), (''focus_nfe_ref'', JStr ref),
                   (''updated_at'', JStr (iso_now e))] \<rparr>"
  from assms obtain tok where tok: "resolveFocusToken e cfg = Inr tok"
    by (cases "resolveFocusToken e cfg") (auto simp: nfe_try_def Let_def)
  define ff where "ff = focusFetch e w1 (''/v2/nfe?ref='' @ encodeURIComponent ref) ''POST''
             tok (resolveFocusApiUrl e cfg) p"
  obtain r w2 where ff: "ff = (r, w2)" by (cases ff)
  from assms tok ff obtain response where r: "r = Inr response" and nn: "\<not> nullish response"
    and sr: "nfe_store_result e w2 org nid cfg response = (res, w')"
    by (cases r) (auto simp: nfe_try_def Let_def w1_def ff_def split: if_splits prod.splits)
  from ff have w2: "w2 = w1\<lparr> gateway_calls := gateway_calls w1 @
         [focus_request e (''/v2/nfe?ref='' @ encodeURIComponent ref) ''POST'' tok (resolveFocusApiUrl e cfg) p] \<rparr>"
    using focusFetch_world [of e w1 "''/v2/nfe?ref='' @ encodeURIComponent ref" "''POST''" tok "resolveFocusApiUrl e cfg" p]
    by (simp add: ff_def)
  from ff r obtain st where st: "gateway e (focus_request e (''/v2/nfe?ref='' @ encodeURIComponent ref) ''POST'' tok (resolveFocusApiUrl e cfg) p)
       = HttpResponse st (Inr response)"
    using focusFetch_Inr [of e w1 "''/v2/nfe?ref='' @ encodeURIComponent ref" "''POST''" tok "resolveFocusApiUrl e cfg" p response]
    by (auto simp: ff_def)
  have "fiscal_config w2 = fiscal_config w" "fiscal_eventos w2 = fiscal_eventos w"
    "gateway_calls w2 = gateway_calls w @
       [focus_request e (''/v2/nfe?ref='' @ encodeURIComponent ref) ''POST'' tok (resolveFocusApiUrl e cfg) p]"
    by (simp_all add: w2 w1_def)
  with nn sr st show ?thesis by blast
qed

lemma nfe_try_throws:
  assumes "nfe_try e w org nid cfg ref p = (Inl x, w')"
  shows "notas_fiscais w' = update_eq (notas_fiscais w) ''id'' (JStr nid)
             [(''status'', JStr ''processando''), (''focus_nfe_ref'', JStr ref),
              (''updated_at'', JStr (iso_now e))]"
    and "fiscal_eventos w' = fiscal_eventos w"
    and "fiscal_config w' = fiscal_config w"
    and "notas_fiscais_itens w' = notas_fiscais_itens w"
proof -
  define w1 where "w1 = w\<lparr> notas_fiscais := update_eq (notas_fiscais w) ''id'' (JStr nid)
                  [(''status'', JStr ''processando''), (''focus_nfe_ref'', JStr ref),
                   (''updated_at'', JStr (iso_now e))] \<rparr>"
  have "w' = w1 \<or> (\<exists>req. w' = w1\<lparr> gateway_calls := gateway_calls w1 @ [req] \<rparr>)"
  proof (cases "resolveFocusToken e cfg")
    case (Inl y)
    with assms show ?thesis by (simp add: nfe_try_def Let_def w1_def)
  next
    case (Inr tok)
    define ff where "ff = focusFetch e w1 (''/v2/nfe?ref='' @ encodeURIComponent ref) ''POST''
             tok (resolveFocusApiUrl e cfg) p"
    obtain r w2 where ff: "ff = (r, w2)" by (cases ff)
    from ff have w2: "w2 = w1\<lparr> gateway_calls := gateway_calls w1 @
         [focus_request e (''/v2/nfe?ref='' @ encodeURIComponent ref) ''POST'' tok (resolveFocusApiUrl e cfg) p] \<rparr>"
      using focusFetch_world [of e w1 "''/v2/nfe?ref='' @ encodeURIComponent ref" "''POST''" tok "resolveFocusApiUrl e cfg" p]
      by (simp add: ff_def)
    from assms Inr ff have "w' = w2"
      by (cases r) (auto simp: nfe_try_def Let_def w1_def ff_def split: if_splits prod.splits)
    with w2 show ?thesis by blast
  qed
  then show "notas_fiscais w' = update_eq (notas_fiscais w) ''id'' (JStr nid)
             [(''status'', JStr ''processando''), (''focus_nfe_ref'', JStr ref),
              (''updated_at'', JStr (iso_now e))]"
    and "fiscal_eventos w' = fiscal_eventos w"
    and "fiscal_config w' = fiscal_config w"
    and "notas_fiscais_itens w' = notas_fiscais_itens w"
    by (auto simp: w1_def)
qed


lemma emit_nfe_cases:
  assumes "emit_nfe e w orgId nid = (res, w')"
  obtains (early) t where "nfe_checks e w orgId nid = Inl t" "res = Text t" "w' = w"
    | (uncaught) org n itens cfg x where "nfe_checks e w orgId nid = Inr (org, n, itens, cfg)"
        "nfe_focusPayload e org cfg n itens = Inl x" "res = Uncaught x" "w' = w"
    | (returned) org n itens cfg ref p where "nfe_checks e w orgId nid = Inr (org, n, itens, cfg)"
        "nfe_focusPayload e org cfg n itens = Inr (ref, p)"
        "nfe_try e w org nid cfg ref p = (Inr res, w')"
    | (caught) org n itens cfg ref p err w1 where "nfe_checks e w orgId nid = Inr (org, n, itens, cfg)"
        "nfe_focusPayload e org cfg n itens = Inr (ref, p)"
        "nfe_try e w org nid cfg ref p = (Inl err, w1)"
        "emit_catch e w1 org nid ''NFe'' err = (res, w')"
  using assms
  by (auto simp: emit_nfe_def split: sum.splits prod.splits)

lemma nfe_checks_org:
  "nfe_checks e w orgId nid = Inr (org, n, itens, cfg) \<Longrightarrow> orgId = Some org"
  by (auto simp: nfe_checks_def Let_def split: option.splits if_splits)

lemma nfe_checks_text:
  "nfe_checks e w orgId nid = Inl t \<Longrightarrow> t \<noteq> ''Erro ao emitir NFe: '' @ msg"
  by (auto simp: nfe_checks_def Let_def split: option.splits if_splits)

lemma nfe_success:
  assumes "emit_nfe e w orgId nid = (Success nota reported, w')"
  shows "\<exists>org cfg response w2 req st.
           orgId = Some org \<and> \<not> nullish response
           \<and> nfe_store_result e w2 org nid cfg response = (Success nota reported, w')
           \<and> fiscal_config w2 = fiscal_config w \<and> fiscal_eventos w2 = fiscal_eventos w
           \<and> gateway_calls w2 = gateway_calls w @ [req] \<and> gateway e req = HttpResponse st (Inr response)"
  using assms
proof (cases rule: emit_nfe_cases)
  case (returned org n itens cfg ref p)
  from nfe_try_returns [OF returned(3)] nfe_checks_org [OF returned(1)]
  show ?thesis by blast
next
  case (caught org n itens cfg ref p err w1)
  from emit_catch_effect(1) [OF caught(4)] show ?thesis by simp
qed simp_all


lemma failure_recorded_nfe:
  assumes "emit_nfe e w orgId nid = (Text (''Erro ao emitir NFe: '' @ msg), w')"
  shows "(\<forall>r\<in>set (notas_fiscais w'). col r ''id'' = JStr nid \<longrightarrow>
             col r ''status'' = JStr ''erro'' \<and> col r ''mensagem_sefaz'' = JStr msg)
       \<and> (\<exists>ev. fiscal_eventos w' = fiscal_eventos w @ [ev] \<and> col ev ''tipo'' = JStr ''erro''
                \<and> col ev ''mensagem'' = JStr msg \<and> col ev ''nota_fiscal_id'' = JStr nid)"
  using assms
proof (cases rule: emit_nfe_cases)
  case (early t)
  with nfe_checks_text [OF early(1), of msg] show ?thesis by simp
next
  case (returned org n itens cfg ref p)
  from nfe_try_returns [OF returned(3)] obtain response w2 where
    "nfe_store_result e w2 org nid cfg response = (Text (''Erro ao emitir NFe: '' @ msg), w')"
    by blast
  from nfe_store_result_effect(1) [OF this] show ?thesis by simp
next
  case (caught org n itens cfg ref p err w1)
  note eff = emit_catch_effect [OF caught(4)]
  from eff(1) have msg: "message err = msg" by simp
  have rows: "\<forall>r\<in>set (notas_fiscais w'). col r ''id'' = JStr nid \<longrightarrow>
             col r ''status'' = JStr ''erro'' \<and> col r ''mensagem_sefaz'' = JStr msg"
  proof (intro ballI impI)
    fix r assume "r \<in> set (notas_fiscais w')" and "col r ''id'' = JStr nid"
    with eff(2) update_eq_hit [of r "notas_fiscais w1" "''id''" "JStr nid"]
    obtain r0 where "r = r0 ++ sent_columns
           [(''status'', JStr ''erro''), (''mensagem_sefaz'', JStr (message err)),
            (''updated_at'', JStr (iso_now e))]" by auto
    then show "col r ''status'' = JStr ''erro'' \<and> col r ''mensagem_sefaz'' = JStr msg"
      by (simp add: col_override sent_columns_Cons msg)
  qed
  have "fiscal_eventos w' = fiscal_eventos w @
           [sent_columns
              [(''organization_id'', JStr org), (''nota_fiscal_id'', JStr nid),
               (''tipo'', JStr ''erro''), (''status'', JStr ''erro''),
               (''mensagem'', JStr (message err)),
               (''dados'', JObj [(''error'', JStr (message err))]),
               (''created_at'', JStr (iso_now e))]]"
    using eff(3) nfe_try_throws(2) [OF caught(3)] by simp
  moreover have "col (sent_columns
              [(''organization_id'', JStr org), (''nota_fiscal_id'', JStr nid),
               (''tipo'', JStr ''erro''), (''status'', JStr ''erro''),
               (''mensagem'', JStr (message err)),
               (''dados'', JObj [(''error'', JStr (message err))]),
               (''created_at'', JStr (iso_now e))]) ''tipo'' = JStr ''erro''"
    and "col (sent_columns
              [(''organization_id'', JStr org), (''nota_fiscal_id'', JStr nid),
               (''tipo'', JStr ''erro''), (''status'', JStr ''erro''),
               (''mensagem'', JStr (message err)),
               (''dados'', JObj [(''error'', JStr (message err))]),
               (''created_at'', JStr (iso_now e))]) ''mensagem'' = JStr msg"
    and "col (sent_columns
              [(''organization_id'', JStr org), (''nota_fiscal_id'', JStr nid),
               (''tipo'', JStr ''erro''), (''status'', JStr ''erro''),
               (''mensagem'', JStr (message err)),
               (''dados'', JObj [(''error'', JStr (message err))]),
               (''created_at'', JStr (iso_now e))]) ''nota_fiscal_id'' = JStr nid"
    by (simp_all add: col_def sent_columns_Cons msg)
  ultimately show ?thesis using rows by blast
qed simp

lemma counter_overwritten_nfe:
  assumes run: "emit_nfe e w (Some org) nid = (Success nota (JStr ''autorizado''), w')"
      and answer: "gateway e (last (gateway_calls w')) = HttpResponse st (Inr response)"
      and numero: "truthy (get_prop response ''numero'')"
      and parsed: "parseInt e (get_prop response ''numero'') = JNum k"
      and c: "c \<in> set (fiscal_config w')" "col c ''organization_id'' = JStr org"
  shows "col c ''nfe_ultimo_numero'' = JNum k"
proof -
  from nfe_success [OF run] obtain cfg response' w2 req st' where
    sr: "nfe_store_result e w2 org nid cfg response' = (Success nota (JStr ''autorizado''), w')"
    and cfg2: "fiscal_config w2 = fiscal_config w"
    and calls: "gateway_calls w2 = gateway_calls w @ [req]"
    and gw: "gateway e req = HttpResponse st' (Inr response')"
    by auto
  note eff = nfe_store_result_effect [OF sr]
  from eff(4) calls have "last (gateway_calls w') = req" by simp
  with answer gw have same: "response' = response" by simp
  from eff(1) have "get_prop response ''status'' = JStr ''autorizado''" by (simp add: same)
  with eff(3) numero same
  have "fiscal_config w' = update_eq (fiscal_config w2) ''organization_id'' (JStr org)
                   [(''nfe_ultimo_numero'', parseInt e (get_prop response ''numero'')),
                    (''updated_at'', JStr (iso_now e))]"
    by (simp add: nfe_status_def)
  with c update_eq_hit [of c "fiscal_config w2" "''organization_id''" "JStr org"]
  obtain c0 where "c = c0 ++ sent_columns [(''nfe_ultimo_numero'', parseInt e (get_prop response ''numero'')),
                    (''updated_at'', JStr (iso_now e))]" by auto
  then show ?thesis
    by (simp add: col_override sent_columns_Cons parsed)
qed

lemma no_credential_nfe:
  assumes checks: "nfe_checks e w orgId nid = Inr (org, n, itens, cfg)"
      and payload: "nfe_focusPayload e org cfg n itens = Inr (ref, p)"
      and token: "resolveFocusToken e cfg = Inl (Error msg)"
  shows "fst (emit_nfe e w orgId nid) = Text (''Erro ao emitir NFe: '' @ msg)"
    and "gateway_calls (snd (emit_nfe e w orgId nid)) = gateway_calls w"
    and "fiscal_config (snd (emit_nfe e w orgId nid)) = fiscal_config w"
    and "\<forall>r\<in>set (notas_fiscais (snd (emit_nfe e w orgId nid))). col r ''id'' = JStr nid \<longrightarrow>
           col r ''status'' = JStr ''erro'' \<and> col r ''mensagem_sefaz'' = JStr msg
           \<and> col r ''focus_nfe_ref'' = JStr ref"
    and "\<exists>ev. fiscal_eventos (snd (emit_nfe e w orgId nid)) = fiscal_eventos w @ [ev]
              \<and> col ev ''tipo'' = JStr ''erro'' \<and> col ev ''mensagem'' = JStr msg
              \<and> col ev ''nota_fiscal_id'' = JStr nid"
proof -
  define w1 where "w1 = w\<lparr> notas_fiscais := update_eq (notas_fiscais w) ''id'' (JStr nid)
                  [(''status'', JStr ''processando''), (''focus_nfe_ref'', JStr ref),
                   (''updated_at'', JStr (iso_now e))] \<rparr>"
  have attempt: "nfe_try e w org nid cfg ref p = (Inl (Error msg), w1)"
    by (simp add: nfe_try_def Let_def token w1_def)
  have emit: "emit_nfe e w orgId nid = emit_catch e w1 org nid ''NFe'' (Error msg)"
    by (simp add: emit_nfe_def checks payload attempt)
  obtain res w' where c: "emit_catch e w1 org nid ''NFe'' (Error msg) = (res, w')"
    by (cases "emit_catch e w1 org nid ''NFe'' (Error msg)")
  note eff = emit_catch_effect [OF c]
  have run: "emit_nfe e w orgId nid = (res, w')" by (simp add: emit c)
  show "fst (emit_nfe e w orgId nid) = Text (''Erro ao emitir NFe: '' @ msg)"
    using eff(1) by (simp add: run)
  show "gateway_calls (snd (emit_nfe e w orgId nid)) = gateway_calls w"
    using eff(5) by (simp add: run w1_def)
  show "fiscal_config (snd (emit_nfe e w orgId nid)) = fiscal_config w"
    using eff(4) by (simp add: run w1_def)
  show "\<forall>r\<in>set (notas_fiscais (snd (emit_nfe e w orgId nid))). col r ''id'' = JStr nid \<longrightarrow>
           col r ''status'' = JStr ''erro'' \<and> col r ''mensagem_sefaz'' = JStr msg
           \<and> col r ''focus_nfe_ref'' = JStr ref"
  proof (intro ballI impI)
    fix r assume "r \<in> set (notas_fiscais (snd (emit_nfe e w orgId nid)))" and id: "col r ''id'' = JStr nid"
    then have "r \<in> set (update_eq (notas_fiscais w1) ''id'' (JStr nid)
           [(''status'', JStr ''erro''), (''mensagem_sefaz'', JStr (message (Error msg))),
            (''updated_at'', JStr (iso_now e))])"
      using eff(2) by (simp add: run)
    from update_eq_hit [OF this id] obtain r1 where r1: "r1 \<in> set (notas_fiscais w1)"
      "col r1 ''id'' = JStr nid"
      "r = r1 ++ sent_columns [(''status'', JStr ''erro''), (''mensagem_sefaz'', JStr (message (Error msg))),
            (''updated_at'', JStr (iso_now e))]" by blast
    from r1(1) have "r1 \<in> set (update_eq (notas_fiscais w) ''id'' (JStr nid)
                  [(''status'', JStr ''processando''), (''focus_nfe_ref'', JStr ref),
                   (''updated_at'', JStr (iso_now e))])" by (simp add: w1_def)
    from update_eq_hit [OF this r1(2)] obtain r0 where
      "r1 = r0 ++ sent_columns [(''status'', JStr ''processando''), (''focus_nfe_ref'', JStr ref),
                   (''updated_at'', JStr (iso_now e))]" by blast
    with r1(3) show "col r ''status'' = JStr ''erro'' \<and> col r ''mensagem_sefaz'' = JStr msg
           \<and> col r ''focus_nfe_ref'' = JStr ref"
      by (simp add: col_override sent_columns_Cons sent_columns_Nil)
  qed
  have "fiscal_eventos (snd (emit_nfe e w orgId nid)) = fiscal_eventos w @
           [sent_columns
              [(''organization_id'', JStr org), (''nota_fiscal_id'', JStr nid),
               (''tipo'', JStr ''erro''), (''status'', JStr ''erro''),
               (''mensagem'', JStr (message (Error msg))),
               (''dados'', JObj [(''error'', JStr (message (Error msg)))]),
               (''created_at'', JStr (iso_now e))]]"
    using eff(3) by (simp add: run w1_def)
  then show "\<exists>ev. fiscal_eventos (snd (emit_nfe e w orgId nid)) = fiscal_eventos w @ [ev]
              \<and> col ev ''tipo'' = JStr ''erro'' \<and> col ev ''mensagem'' = JStr msg
              \<and> col ev ''nota_fiscal_id'' = JStr nid"
    by (simp add: col_def sent_columns_Cons)
qed

lemma nfe_focusPayload_ref:
  assumes "nfe_focusPayload e org cfg n itens = Inr (ref, p)"
  shows "ref = generateFocusRef e org ''nfe''"
  using assms
  by (auto simp: nfe_focusPayload_def Let_def split: sum.splits if_splits)

section \<open>The guarded block of emit_nfse\<close>

lemma nfse_store_result_effect:
  assumes "nfse_store_result e w2 org nid cfg response = (res, w')"
  shows "res = Success (single (select_eq (notas_fiscais w') [(''id'', JStr nid)])) (get_prop response ''status'')"
    and "notas_fiscais w' = update_eq (notas_fiscais w2) ''id'' (JStr nid) (nfse_updateData e cfg response)"
    and "fiscal_config w' =
           (if nfse_status (get_prop response ''status'') = ''autorizada'' \<and> truthy (get_prop response ''numero'')
            then update_eq (fiscal_config w2) ''organization_id'' (JStr org)
                   [(''nfse_ultimo_numero'', parseInt e (get_prop response ''numero'')),
                    (''updated_at'', JStr (iso_now e))]
            else fiscal_config w2)"
    and "gateway_calls w' = gateway_calls w2"
    and "length (fiscal_eventos w') = Suc (length (fiscal_eventos w2))"
  using assms
  by (auto simp: nfse_store_result_def Let_def insert_row_def)

lemma nfse_try_returns:
  assumes "nfse_try e w org nid cfg ref p = (Inr res, w')"
  shows "\<exists>response w2 req st.
           \<not> nullish response \<and> nfse_store_result e w2 org nid cfg response = (res, w')
           \<and> fiscal_config w2 = fiscal_config w \<and> fiscal_eventos w2 = fiscal_eventos w
           \<and> gateway_calls w2 = gateway_calls w @ [req] \<and> gateway e req = HttpResponse st (Inr response)"
proof -
  define w1 where "w1 = w\<lparr> notas_fiscais := update_eq (notas_fiscais w) ''id'' (JStr nid)
                  [(''status'', JStr ''processando''), (''focus_nfe_ref'', JStr ref),
                   (''updated_at'', JStr (iso_now e))] \<rparr>"
  from assms obtain tok where tok: "resolveFocusToken e cfg = Inr tok"
    by (cases "resolveFocusToken e cfg") (auto simp: nfse_try_def Let_def)
  define ff where "ff = focusFetch e w1 (''/v2/nfse?ref='' @ encodeURIComponent ref) ''POST''
             tok (resolveFocusApiUrl e cfg) p"
  obtain r w2 where ff: "ff = (r, w2)" by (cases ff)
  from assms tok ff obtain response where r: "r = Inr response" and nn: "\<not> nullish response"
    and sr: "nfse_store_result e w2 org nid cfg response = (res, w')"
    by (cases r) (auto simp: nfse_try_def Let_def w1_def ff_def split: if_splits prod.splits)
  from ff have w2: "w2 = w1\<lparr> gateway_calls := gateway_calls w1 @
         [focus_request e (''/v2/nfse?ref='' @ encodeURIComponent ref) ''POST'' tok (resolveFocusApiUrl e cfg) p] \<rparr>"
    using focusFetch_world [of e w1 "''/v2/nfse?ref='' @ encodeURIComponent ref" "''POST''" tok "resolveFocusApiUrl e cfg" p]
    by (simp add: ff_def)
  from ff r obtain st where st: "gateway e (focus_request e (''/v2/nfse?ref='' @ encodeURIComponent ref) ''POST'' tok (resolveFocusApiUrl e cfg) p)
       = HttpResponse st (Inr response)"
    using focusFetch_Inr [of e w1 "''/v2/nfse?ref='' @ encodeURIComponent ref" "''POST''" tok "resolveFocusApiUrl e cfg" p response]
    by (auto simp: ff_def)
  have "fiscal_config w2 = fiscal_config w" "fiscal_eventos w2 = fiscal_eventos w"
    "gateway_calls w2 = gateway_calls w @
       [focus_request e (''/v2/nfse?ref='' @ encodeURIComponent ref) ''POST'' tok (resolveFocusApiUrl e cfg) p]"
    by (simp_all add: w2 w1_def)
  with nn sr st show ?thesis by blast
qed

lemma nfse_try_throws:
  assumes "nfse_try e w org nid cfg ref p = (Inl x, w')"
  shows "notas_fiscais w' = update_eq (notas_fiscais w) ''id'' (JStr nid)
             [(''status'', JStr ''processando''), (''focus_nfe_ref'', JStr ref),
              (''updated_at'', JStr (iso_now e))]"
    and "fiscal_eventos w' = fiscal_eventos w"
    and "fiscal_config w' = fiscal_config w"
    and "notas_fiscais_itens w' = notas_fiscais_itens w"
proof -
  define w1 where "w1 = w\<lparr> notas_fiscais := update_eq (notas_fiscais w) ''id'' (JStr nid)
                  [(''status'', JStr ''processando''), (''focus_nfe_ref'', JStr ref),
                   (''updated_at'', JStr (iso_now e))] \<rparr>"
  have "w' = w1 \<or> (\<exists>req. w' = w1\<lparr> gateway_calls := gateway_calls w1 @ [req] \<rparr>)"
  proof (cases "resolveFocusToken e cfg")
    case (Inl y)
    with assms show ?thesis by (simp add: nfse_try_def Let_def w1_def)
  next
    case (Inr tok)
    define ff where "ff = focusFetch e w1 (''/v2/nfse?ref='' @ encodeURIComponent ref) ''POST''
             tok (resolveFocusApiUrl e cfg) p"
    obtain r w2 where ff: "ff = (r, w2)" by (cases ff)
    from ff have w2: "w2 = w1\<lparr> gateway_calls := gateway_calls w1 @
         [focus_request e (''/v2/nfse?ref='' @ encodeURIComponent ref) ''POST'' tok (resolveFocusApiUrl e cfg) p] \<rparr>"
      using focusFetch_world [of e w1 "''/v2/nfse?ref='' @ encodeURIComponent ref" "''POST''" tok "resolveFocusApiUrl e cfg" p]
      by (simp add: ff_def)
    from assms Inr ff have "w' = w2"
      by (cases r) (auto simp: nfse_try_def Let_def w1_def ff_def split: if_splits prod.splits)
    with w2 show ?thesis by blast
  qed
  then show "notas_fiscais w' = update_eq (notas_fiscais w) ''id'' (JStr nid)
             [(''status'', JStr ''processando''), (''focus_nfe_ref'', JStr ref),
              (''updated_at'', JStr (iso_now e))]"
    and "fiscal_eventos w' = fiscal_eventos w"
    and "fiscal_config w' = fiscal_config w"
    and "notas_fiscais_itens w' = notas_fiscais_itens w"
    by (auto simp: w1_def)
qed


lemma emit_nfse_cases:
  assumes "emit_nfse e w orgId nid = (res, w')"
  obtains (early) t where "nfse_checks e w orgId nid = Inl t" "res = Text t" "w' = w"
    | (uncaught) org n cfg x where "nfse_checks e w orgId nid = Inr (org, n, cfg)"
        "nfse_focusPayload e org cfg n = Inl x" "res = Uncaught x" "w' = w"
    | (returned) org n cfg ref p where "nfse_checks e w orgId nid = Inr (org, n, cfg)"
        "nfse_focusPayload e org cfg n = Inr (ref, p)"
        "nfse_try e w org nid cfg ref p = (Inr res, w')"
    | (caught) org n cfg ref p err w1 where "nfse_checks e w orgId nid = Inr (org, n, cfg)"
        "nfse_focusPayload e org cfg n = Inr (ref, p)"
        "nfse_try e w org nid cfg ref p = (Inl err, w1)"
        "emit_catch e w1 org nid ''NFSe'' err = (res, w')"
  using assms
  by (auto simp: emit_nfse_def split: sum.splits prod.splits)

lemma nfse_checks_org:
  "nfse_checks e w orgId nid = Inr (org, n, cfg) \<Longrightarrow> orgId = Some org"
  by (auto simp: nfse_checks_def Let_def split: option.splits if_splits)

lemma nfse_checks_text:
  "nfse_checks e w orgId nid = Inl t \<Longrightarrow> t \<noteq> ''Erro ao emitir NFSe: '' @ msg"
  by (auto simp: nfse_checks_def Let_def split: option.splits if_splits)

lemma nfse_success:
  assumes "emit_nfse e w orgId nid = (Success nota reported, w')"
  shows "\<exists>org cfg response w2 req st.
           orgId = Some org \<and> \<not> nullish response
           \<and> nfse_store_result e w2 org nid cfg response = (Success nota reported, w')
           \<and> fiscal_config w2 = fiscal_config w \<and> fiscal_eventos w2 = fiscal_eventos w
           \<and> gateway_calls w2 = gateway_calls w @ [req] \<and> gateway e req = HttpResponse st (Inr response)"
  using assms
proof (cases rule: emit_nfse_cases)
  case (returned org n cfg ref p)
  from nfse_try_returns [OF returned(3)] nfse_checks_org [OF returned(1)]
  show ?thesis by blast
next
  case (caught org n cfg ref p err w1)
  from emit_catch_effect(1) [OF caught(4)] show ?thesis by simp
qed simp_all


lemma failure_recorded_nfse:
  assumes "emit_nfse e w orgId nid = (Text (''Erro ao emitir NFSe: '' @ msg), w')"
  shows "(\<forall>r\<in>set (notas_fiscais w'). col r ''id'' = JStr nid \<longrightarrow>
             col r ''status'' = JStr ''erro'' \<and> col r ''mensagem_sefaz'' = JStr msg)
       \<and> (\<exists>ev. fiscal_eventos w' = fiscal_eventos w @ [ev] \<and> col ev ''tipo'' = JStr ''erro''
                \<and> col ev ''mensagem'' = JStr msg \<and> col ev ''nota_fiscal_id'' = JStr nid)"
  using assms
proof (cases rule: emit_nfse_cases)
  case (early t)
  with nfse_checks_text [OF early(1), of msg] show ?thesis by simp
next
  case (returned org n cfg ref p)
  from nfse_try_returns [OF returned(3)] obtain response w2 where
    "nfse_store_result e w2 org nid cfg response = (Text (''Erro ao emitir NFSe: '' @ msg), w')"
    by blast
  from nfse_store_result_effect(1) [OF this] show ?thesis by simp
next
  case (caught org n cfg ref p err w1)
  note eff = emit_catch_effect [OF caught(4)]
  from eff(1) have msg: "message err = msg" by simp
  have rows: "\<forall>r\<in>set (notas_fiscais w'). col r ''id'' = JStr nid \<longrightarrow>
             col r ''status'' = JStr ''erro'' \<and> col r ''mensagem_sefaz'' = JStr msg"
  proof (intro ballI impI)
    fix r assume "r \<in> set (notas_fiscais w')" and "col r ''id'' = JStr nid"
    with eff(2) update_eq_hit [of r "notas_fiscais w1" "''id''" "JStr nid"]
    obtain r0 where "r = r0 ++ sent_columns
           [(''status'', JStr ''erro''), (''mensagem_sefaz'', JStr (message err)),
            (''updated_at'', JStr (iso_now e))]" by auto
    then show "col r ''status'' = JStr ''erro'' \<and> col r ''mensagem_sefaz'' = JStr msg"
      by (simp add: col_override sent_columns_Cons msg)
  qed
  have "fiscal_eventos w' = fiscal_eventos w @
           [sent_columns
              [(''organization_id'', JStr org), (''nota_fiscal_id'', JStr nid),
               (''tipo'', JStr ''erro''), (''status'', JStr ''erro''),
               (''mensagem'', JStr (message err)),
               (''dados'', JObj [(''error'', JStr (message err))]),
               (''created_at'', JStr (iso_now e))]]"
    using eff(3) nfse_try_throws(2) [OF caught(3)] by simp
  moreover have "col (sent_columns
              [(''organization_id'', JStr org), (''nota_fiscal_id'', JStr nid),
               (''tipo'', JStr ''erro''), (''status'', JStr ''erro''),
               (''mensagem'', JStr (message err)),
               (''dados'', JObj [(''error'', JStr (message err))]),
               (''created_at'', JStr (iso_now e))]) ''tipo'' = JStr ''erro''"
    and "col (sent_columns
              [(''organization_id'', JStr org), (''nota_fiscal_id'', JStr nid),
               (''tipo'', JStr ''erro''), (''status'', JStr ''erro''),
               (''mensagem'', JStr (message err)),
               (''dados'', JObj [(''error'', JStr (message err))]),
               (''created_at'', JStr (iso_now e))]) ''mensagem'' = JStr msg"
    and "col (sent_columns
              [(''organization_id'', JStr org), (''nota_fiscal_id'', JStr nid),
               (''tipo'', JStr ''erro''), (''status'', JStr ''erro''),
               (''mensagem'', JStr (message err)),
               (''dados'', JObj [(''error'', JStr (message err))]),
               (''created_at'', JStr (iso_now e))]) ''nota_fiscal_id'' = JStr nid"
    by (simp_all add: col_def sent_columns_Cons msg)
  ultimately show ?thesis using rows by blast
qed simp

lemma counter_overwritten_nfse:
  assumes run: "emit_nfse e w (Some org) nid = (Success nota (JStr ''autorizado''), w')"
      and answer: "gateway e (last (gateway_calls w')) = HttpResponse st (Inr response)"
      and numero: "truthy (get_prop response ''numero'')"
      and parsed: "parseInt e (get_prop response ''numero'') = JNum k"
      and c: "c \<in> set (fiscal_config w')" "col c ''organization_id'' = JStr org"
  shows "col c ''nfse_ultimo_numero'' = JNum k"
proof -
  from nfse_success [OF run] obtain cfg response' w2 req st' where
    sr: "nfse_store_result e w2 org nid cfg response' = (Success nota (JStr ''autorizado''), w')"
    and cfg2: "fiscal_config w2 = fiscal_config w"
    and calls: "gateway_calls w2 = gateway_calls w @ [req]"
    and gw: "gateway e req = HttpResponse st' (Inr response')"
    by auto
  note eff = nfse_store_result_effect [OF sr]
  from eff(4) calls have "last (gateway_calls w') = req" by simp
  with answer gw have same: "response' = response" by simp
  from eff(1) have "get_prop response ''status'' = JStr ''autorizado''" by (simp add: same)
  with eff(3) numero same
  have "fiscal_config w' = update_eq (fiscal_config w2) ''organization_id'' (JStr org)
                   [(''nfse_ultimo_numero'', parseInt e (get_prop response ''numero'')),
                    (''updated_at'', JStr (iso_now e))]"
    by (simp add: nfse_status_def)
  with c update_eq_hit [of c "fiscal_config w2" "''organization_id''" "JStr org"]
  obtain c0 where "c = c0 ++ sent_columns [(''nfse_ultimo_numero'', parseInt e (get_prop response ''numero'')),
                    (''updated_at'', JStr (iso_now e))]" by auto
  then show ?thesis
    by (simp add: col_override sent_columns_Cons parsed)
qed

lemma no_credential_nfse:
  assumes checks: "nfse_checks e w orgId nid = Inr (org, n, cfg)"
      and payload: "nfse_focusPayload e org cfg n = Inr (ref, p)"
      and token: "resolveFocusToken e cfg = Inl (Error msg)"
  shows "fst (emit_nfse e w orgId nid) = Text (''Erro ao emitir NFSe: '' @ msg)"
    and "gateway_calls (snd (emit_nfse e w orgId nid)) = gateway_calls w"
    and "fiscal_config (snd (emit_nfse e w orgId nid)) = fiscal_config w"
    and "\<forall>r\<in>set (notas_fiscais (snd (emit_nfse e w orgId nid))). col r ''id'' = JStr nid \<longrightarrow>
           col r ''status'' = JStr ''erro'' \<and> col r ''mensagem_sefaz'' = JStr msg
           \<and> col r ''focus_nfe_ref'' = JStr ref"
    and "\<exists>ev. fiscal_eventos (snd (emit_nfse e w orgId nid)) = fiscal_eventos w @ [ev]
              \<and> col ev ''tipo'' = JStr ''erro'' \<and> col ev ''mensagem'' = JStr msg
              \<and> col ev ''nota_fiscal_id'' = JStr nid"
proof -
  define w1 where "w1 = w\<lparr> notas_fiscais := update_eq (notas_fiscais w) ''id'' (JStr nid)
                  [(''status'', JStr ''processando''), (''focus_nfe_ref'', JStr ref),
                   (''updated_at'', JStr (iso_now e))] \<rparr>"
  have attempt: "nfse_try e w org nid cfg ref p = (Inl (Error msg), w1)"
    by (simp add: nfse_try_def Let_def token w1_def)
  have emit: "emit_nfse e w orgId nid = emit_catch e w1 org nid ''NFSe'' (Error msg)"
    by (simp add: emit_nfse_def checks payload attempt)
  obtain res w' where c: "emit_catch e w1 org nid ''NFSe'' (Error msg) = (res, w')"
    by (cases "emit_catch e w1 org nid ''NFSe'' (Error msg)")
  note eff = emit_catch_effect [OF c]
  have run: "emit_nfse e w orgId nid = (res, w')" by (simp add: emit c)
  show "fst (emit_nfse e w orgId nid) = Text (''Erro ao emitir NFSe: '' @ msg)"
    using eff(1) by (simp add: run)
  show "gateway_calls (snd (emit_nfse e w orgId nid)) = gateway_calls w"
    using eff(5) by (simp add: run w1_def)
  show "fiscal_config (snd (emit_nfse e w orgId nid)) = fiscal_config w"
    using eff(4) by (simp add: run w1_def)
  show "\<forall>r\<in>set (notas_fiscais (snd (emit_nfse e w orgId nid))). col r ''id'' = JStr nid \<longrightarrow>
           col r ''status'' = JStr ''erro'' \<and> col r ''mensagem_sefaz'' = JStr msg
           \<and> col r ''focus_nfe_ref'' = JStr ref"
  proof (intro ballI impI)
    fix r assume "r \<in> set (notas_fiscais (snd (emit_nfse e w orgId nid)))" and id: "col r ''id'' = JStr nid"
    then have "r \<in> set (update_eq (notas_fiscais w1) ''id'' (JStr nid)
           [(''status'', JStr ''erro''), (''mensagem_sefaz'', JStr (message (Error msg))),
            (''updated_at'', JStr (iso_now e))])"
      using eff(2) by (simp add: run)
    from update_eq_hit [OF this id] obtain r1 where r1: "r1 \<in> set (notas_fiscais w1)"
      "col r1 ''id'' = JStr nid"
      "r = r1 ++ sent_columns [(''status'', JStr ''erro''), (''mensagem_sefaz'', JStr (message (Error msg))),
            (''updated_at'', JStr (iso_now e))]" by blast
    from r1(1) have "r1 \<in> set (update_eq (notas_fiscais w) ''id'' (JStr nid)
                  [(''status'', JStr ''processando''), (''focus_nfe_ref'', JStr ref),
                   (''updated_at'', JStr (iso_now e))])" by (simp add: w1_def)
    from update_eq_hit [OF this r1(2)] obtain r0 where
      "r1 = r0 ++ sent_columns [(''status'', JStr ''processando''), (''focus_nfe_ref'', JStr ref),
                   (''updated_at'', JStr (iso_now e))]" by blast
    with r1(3) show "col r ''status'' = JStr ''erro'' \<and> col r ''mensagem_sefaz'' = JStr msg
           \<and> col r ''focus_nfe_ref'' = JStr ref"
      by (simp add: col_override sent_columns_Cons sent_columns_Nil)
  qed
  have "fiscal_eventos (snd (emit_nfse e w orgId nid)) = fiscal_eventos w @
           [sent_columns
              [(''organization_id'', JStr org), (''nota_fiscal_id'', JStr nid),
               (''tipo'', JStr ''erro''), (''status'', JStr ''erro''),
               (''mensagem'', JStr (message (Error msg))),
               (''dados'', JObj [(''error'', JStr (message (Error msg)))]),
               (''created_at'', JStr (iso_now e))]]"
    using eff(3) by (simp add: run w1_def)
  then show "\<exists>ev. fiscal_eventos (snd (emit_nfse e w orgId nid)) = fiscal_eventos w @ [ev]
              \<and> col ev ''tipo'' = JStr ''erro'' \<and> col ev ''mensagem'' = JStr msg
              \<and> col ev ''nota_fiscal_id'' = JStr nid"
    by (simp add: col_def sent_columns_Cons)
qed

lemma nfse_focusPayload_ref:
  assumes "nfse_focusPayload e org cfg n = Inr (ref, p)"
  shows "ref = generateFocusRef e org ''nfse''"
  using assms
  by (auto simp: nfse_focusPayload_def Let_def split: sum.splits if_splits)

section \<open>Independence of the clock\<close>

lemma toString_clock: "toString (e\<lparr>today_ms := t, date_ms := f\<rparr>) = toString e"
  by (intro ext) (simp add: toString_def)

lemma parseInt_clock: "parseInt (e\<lparr>today_ms := t, date_ms := f\<rparr>) = parseInt e"
  by (intro ext) (simp add: parseInt_def toString_clock Let_def cong: if_cong)

lemma toUpperCase_clock: "toUpperCase (e\<lparr>today_ms := t, date_ms := f\<rparr>) = toUpperCase e"
  by (intro ext) (simp add: toUpperCase_def)

lemma substring_clock: "substring (e\<lparr>today_ms := t, date_ms := f\<rparr>) = substring e"
  by (intro ext) (simp add: substring_def)

lemma table_index_clock: "table_index (e\<lparr>today_ms := t, date_ms := f\<rparr>) = table_index e"
  by (intro ext) (simp add: table_index_def toString_clock)

lemma erros_mensagem_clock: "erros_mensagem (e\<lparr>today_ms := t, date_ms := f\<rparr>) = erros_mensagem e"
  by (intro ext)
     (simp add: erros_mensagem_def toString_clock Let_def split: jsval.splits option.splits cong: if_cong)

lemma error_mensagem_clock: "error_mensagem (e\<lparr>today_ms := t, date_ms := f\<rparr>) = error_mensagem e"
  by (intro ext) (simp add: error_mensagem_def erros_mensagem_clock)

lemma focus_request_clock: "focus_request (e\<lparr>today_ms := t, date_ms := f\<rparr>) = focus_request e"
  by (intro ext) (simp add: focus_request_def toString_clock)

lemma isMesmoEstado_clock: "isMesmoEstado (e\<lparr>today_ms := t, date_ms := f\<rparr>) = isMesmoEstado e"
  by (intro ext) (simp add: isMesmoEstado_def toUpperCase_clock cong: sum.case_cong)

lemma focusItem_clock: "focusItem (e\<lparr>today_ms := t, date_ms := f\<rparr>) = focusItem e"
  by (intro ext) (simp add: focusItem_def substring_clock table_index_clock cong: sum.case_cong)

lemma focusItens_clock: "focusItens (e\<lparr>today_ms := t, date_ms := f\<rparr>) = focusItens e"
  by (intro ext) (simp add: focusItens_def focusItem_clock)

lemma generateFocusRef_clock: "generateFocusRef (e\<lparr>today_ms := t, date_ms := f\<rparr>) = generateFocusRef e"
  by (intro ext) (simp add: generateFocusRef_def substring_clock)

lemmas engine_clock =
  toString_clock parseInt_clock toUpperCase_clock substring_clock table_index_clock
  erros_mensagem_clock error_mensagem_clock focus_request_clock isMesmoEstado_clock
  focusItem_clock focusItens_clock generateFocusRef_clock

lemma focusFetch_clock:
  "focusFetch (e\<lparr>today_ms := t, date_ms := f\<rparr>) w ep m tok url body = focusFetch e w ep m tok url body"
  by (simp add: focusFetch_def engine_clock Let_def cong: http_outcome.case_cong sum.case_cong if_cong)

lemma resolveFocusToken_clock:
  "resolveFocusToken (e\<lparr>today_ms := t, date_ms := f\<rparr>) cfg = resolveFocusToken e cfg"
  by (simp add: resolveFocusToken_def engine_clock Let_def cong: if_cong)

lemma resolveFocusApiUrl_clock:
  "resolveFocusApiUrl (e\<lparr>today_ms := t, date_ms := f\<rparr>) cfg = resolveFocusApiUrl e cfg"
  by (simp add: resolveFocusApiUrl_def)

lemma emit_catch_clock:
  "emit_catch (e\<lparr>today_ms := t, date_ms := f\<rparr>) w org nid label err = emit_catch e w org nid label err"
  by (simp add: emit_catch_def)

lemma nfe_focusPayload_clock:
  "nfe_focusPayload (e\<lparr>today_ms := t, date_ms := f\<rparr>) org cfg n itens = nfe_focusPayload e org cfg n itens"
  by (simp add: nfe_focusPayload_def engine_clock cong: sum.case_cong)

lemma nfe_store_result_clock:
  "nfe_store_result (e\<lparr>today_ms := t, date_ms := f\<rparr>) w org nid cfg response
     = nfe_store_result e w org nid cfg response"
  by (simp add: nfe_store_result_def nfe_updateData_def engine_clock cong: if_cong)

lemma nfe_try_clock:
  "nfe_try (e\<lparr>today_ms := t, date_ms := f\<rparr>) w org nid cfg ref p = nfe_try e w org nid cfg ref p"
  by (simp add: nfe_try_def nfe_store_result_clock
        focusFetch_clock resolveFocusToken_clock resolveFocusApiUrl_clock
        cong: sum.case_cong prod.case_cong if_cong)

lemma nfse_focusPayload_clock:
  "nfse_focusPayload (e\<lparr>today_ms := t, date_ms := f\<rparr>) org cfg n = nfse_focusPayload e org cfg n"
  by (simp add: nfse_focusPayload_def engine_clock cong: sum.case_cong)

lemma nfse_store_result_clock:
  "nfse_store_result (e\<lparr>today_ms := t, date_ms := f\<rparr>) w org nid cfg response
     = nfse_store_result e w org nid cfg response"
  by (simp add: nfse_store_result_def nfse_updateData_def engine_clock cong: if_cong)

lemma nfse_try_clock:
  "nfse_try (e\<lparr>today_ms := t, date_ms := f\<rparr>) w org nid cfg ref p = nfse_try e w org nid cfg ref p"
  by (simp add: nfse_try_def nfse_store_result_clock
        focusFetch_clock resolveFocusToken_clock resolveFocusApiUrl_clock
        cong: sum.case_cong prod.case_cong if_cong)

lemma nfe_checks_clock:
  assumes "single (select_eq (fiscal_config w) [(''organization_id'', JStr org)]) = Some cfg"
      and "\<not> truthy (col cfg ''certificado_validade'')"
  shows "nfe_checks (e\<lparr>today_ms := t, date_ms := f\<rparr>) w (Some org) nid = nfe_checks e w (Some org) nid"
    and "nfe_checks e w (Some org) nid \<noteq> Inl ''Certificado digital expirado''"
  using assms
  by (auto simp: nfe_checks_def certificado_expirado_def Let_def a_tilde_def a_acute_def o_acute_def c_cedilla_def
           split: option.splits)

lemma emit_nfe_clock:
  assumes "single (select_eq (fiscal_config w) [(''organization_id'', JStr org)]) = Some cfg"
      and "\<not> truthy (col cfg ''certificado_validade'')"
  shows "emit_nfe (e\<lparr>today_ms := t, date_ms := f\<rparr>) w (Some org) nid = emit_nfe e w (Some org) nid"
  by (simp add: emit_nfe_def nfe_checks_clock(1) [OF assms] nfe_focusPayload_clock nfe_try_clock emit_catch_clock
        cong: sum.case_cong prod.case_cong)

lemma emit_nfe_not_expired:
  assumes "single (select_eq (fiscal_config w) [(''organization_id'', JStr org)]) = Some cfg"
      and "\<not> truthy (col cfg ''certificado_validade'')"
  shows "fst (emit_nfe e w (Some org) nid) \<noteq> Text ''Certificado digital expirado''"
proof -
  obtain res w' where run: "emit_nfe e w (Some org) nid = (res, w')"
    by (cases "emit_nfe e w (Some org) nid")
  from run have "res \<noteq> Text ''Certificado digital expirado''"
  proof (cases rule: emit_nfe_cases)
    case (early t)
    with nfe_checks_clock(2) [OF assms, of e nid] show ?thesis by auto
  next
    case (returned org' n itens cfg' ref p)
    from nfe_try_returns [OF returned(3)] obtain response w2 where
      "nfe_store_result e w2 org' nid cfg' response = (res, w')" by blast
    from nfe_store_result_effect(1) [OF this] show ?thesis by simp
  next
    case (caught org' n itens cfg' ref p err w1)
    from emit_catch_effect(1) [OF caught(4)] show ?thesis by simp
  qed simp
  with run show ?thesis by simp
qed

lemma nfse_checks_clock:
  "nfse_checks (e\<lparr>today_ms := t, date_ms := f\<rparr>) w orgId nid = nfse_checks e w orgId nid"
  "nfse_checks e w orgId nid \<noteq> Inl ''Certificado digital expirado''"
  by (auto simp: nfse_checks_def Let_def a_tilde_def a_acute_def o_acute_def c_cedilla_def
           split: option.splits)

lemma emit_nfse_clock:
  "emit_nfse (e\<lparr>today_ms := t, date_ms := f\<rparr>) w orgId nid = emit_nfse e w orgId nid"
  by (simp add: emit_nfse_def nfse_checks_clock(1) nfse_focusPayload_clock nfse_try_clock emit_catch_clock
        cong: sum.case_cong prod.case_cong)

lemma emit_nfse_not_expired:
  "fst (emit_nfse e w orgId nid) \<noteq> Text ''Certificado digital expirado''"
proof -
  obtain res w' where run: "emit_nfse e w orgId nid = (res, w')"
    by (cases "emit_nfse e w orgId nid")
  from run have "res \<noteq> Text ''Certificado digital expirado''"
  proof (cases rule: emit_nfse_cases)
    case (early t)
    with nfse_checks_clock(2) [of e w orgId nid] show ?thesis by auto
  next
    case (returned org' n cfg' ref p)
    from nfse_try_returns [OF returned(3)] obtain response w2 where
      "nfse_store_result e w2 org' nid cfg' response = (res, w')" by blast
    from nfse_store_result_effect(1) [OF this] show ?thesis by simp
  next
    case (caught org' n cfg' ref p err w1)
    from emit_catch_effect(1) [OF caught(4)] show ?thesis by simp
  qed simp
  with run show ?thesis by simp
qed

section \<open>The payload builders\<close>

lemma map_index_nth:
  "map_index g k xs = Inr ys \<Longrightarrow>
     length ys = length xs \<and> (\<forall>i<length xs. g (k + i) (xs ! i) = Inr (ys ! i))"
proof (induction xs arbitrary: k ys)
  case Nil
  then show ?case by simp
next
  case (Cons x xs)
  from Cons.prems obtain y ys' where y: "g k x = Inr y" and rest: "map_index g (Suc k) xs = Inr ys'"
    and ys: "ys = y # ys'"
    by (auto split: sum.splits)
  from Cons.IH [OF rest] have len: "length ys' = length xs"
    and nth: "\<forall>i<length xs. g (Suc k + i) (xs ! i) = Inr (ys' ! i)" by simp_all
  show ?case
  proof (intro conjI allI impI)
    show "length ys = length (x # xs)" using len ys by simp
  next
    fix i assume "i < length (x # xs)"
    then show "g (k + i) ((x # xs) ! i) = Inr (ys ! i)"
      using y nth ys by (cases i) simp_all
  qed
qed

lemma focusItem_cfop:
  assumes "focusItem e dentroEstado index item = Inr y"
      and "\<not> truthy (col item ''cfop'')"
  shows "get_prop y ''cfop'' = JStr (getCfopVenda dentroEstado False)"
proof -
  define cp where "cp = (if truthy (col item ''codigo'') then Inr (col item ''codigo'')
            else case string_receiver ''item.id'' ''substring'' (col item ''id'') of
                   Inl x \<Rightarrow> Inl x
                 | Inr s \<Rightarrow> Inr (JStr (substring e s 0 8)))"
  show ?thesis
  proof (cases cp)
    case (Inl x)
    with assms(1) show ?thesis by (simp add: focusItem_def cp_def [symmetric])
  next
    case (Inr c)
    with assms(1) have "y = JObj
            [(''numero_item'', JNum (int index + 1)),
             (''codigo_produto'', c),
             (''descricao'', col item ''descricao''),
             (''cfop'', js_or (col item ''cfop'') (JStr (getCfopVenda dentroEstado False))),
             (''unidade_comercial'', js_or (col item ''unidade'') (JStr ''UN'')),
             (''quantidade_comercial'', col item ''quantidade''),
             (''valor_unitario_comercial'', col item ''valor_unitario''),
             (''valor_bruto'', col item ''valor_total''),
             (''ncm'', js_or (col item ''ncm'') (JStr ''00000000'')),
             (''cest'', js_or (col item ''cest'') JUndefined),
             (''icms_origem'',
                js_or (table_index e ICMS_ORIGEM_MAP (js_or (col item ''icms_origem'') (JStr ''nacional'')))
                      (JStr ''0'')),
             (''icms_situacao_tributaria'', js_or (col item ''icms_cst'') (JStr DEFAULT_CSOSN)),
             (''pis_situacao_tributaria'', js_or (col item ''pis_cst'') (JStr PIS_COFINS_CST_SIMPLES)),
             (''cofins_situacao_tributaria'',
                js_or (col item ''cofins_cst'') (JStr PIS_COFINS_CST_SIMPLES))]"
      by (simp add: focusItem_def cp_def [symmetric])
    then show ?thesis using assms(2) by (simp add: js_or_def)
  qed
qed

lemma of_char_upper:
  assumes "97 \<le> (of_char x :: nat)"
  shows "(of_char (char_of ((of_char x :: nat) - 32)) :: nat) = of_char x - 32"
proof -
  have "(of_char x :: nat) - 32 < 256" using nat_of_char_less_256 [of x] by arith
  then show ?thesis by (simp add: of_char_of)
qed

lemma upper_char_eq_iff: "upper_char c = upper_char d \<longleftrightarrow> same_letter c d"
proof -
  define m where "m = (of_char c :: nat)"
  define n where "n = (of_char d :: nat)"
  have uc: "(of_char (upper_char c) :: nat) = (if 97 \<le> m \<and> m \<le> 122 then m - 32 else m)"
    by (simp add: upper_char_def m_def of_char_upper del: of_char_of)
  have ud: "(of_char (upper_char d) :: nat) = (if 97 \<le> n \<and> n \<le> 122 then n - 32 else n)"
    by (simp add: upper_char_def n_def of_char_upper del: of_char_of)
  have "upper_char c = upper_char d \<longleftrightarrow> (of_char (upper_char c) :: nat) = of_char (upper_char d)"
    by simp
  also have "\<dots> \<longleftrightarrow> (if 97 \<le> m \<and> m \<le> 122 then m - 32 else m) = (if 97 \<le> n \<and> n \<le> 122 then n - 32 else n)"
    by (simp only: uc ud)
  also have "\<dots> \<longleftrightarrow> (m = n \<or> (97 \<le> m \<and> m \<le> 122 \<and> m = n + 32) \<or> (97 \<le> n \<and> n \<le> 122 \<and> n = m + 32))"
  proof (cases "97 \<le> m \<and> m \<le> 122")
    case lower_c: True
    show ?thesis
    proof (cases "97 \<le> n \<and> n \<le> 122")
      case True
      with lower_c show ?thesis by (simp; arith)
    next
      case False
      with lower_c show ?thesis by (simp; arith)
    qed
  next
    case other_c: False
    show ?thesis
    proof (cases "97 \<le> n \<and> n \<le> 122")
      case True
      with other_c show ?thesis by (simp; arith)
    next
      case False
      with other_c show ?thesis by (simp; arith)
    qed
  qed
  finally show ?thesis by (simp add: same_letter_def m_def n_def)
qed

lemma map_upper_char_eq_iff: "map upper_char a = map upper_char b \<longleftrightarrow> equal_ignoring_case a b"
proof (induction a arbitrary: b)
  case Nil
  then show ?case by (simp add: equal_ignoring_case_def)
next
  case (Cons x xs)
  then show ?case by (cases b) (simp_all add: equal_ignoring_case_def upper_char_eq_iff)
qed

lemma toUpperCase_eq_iff:
  assumes "is_ascii a" and "is_ascii b"
  shows "toUpperCase e a = toUpperCase e b \<longleftrightarrow> equal_ignoring_case a b"
  using assms by (simp add: toUpperCase_def map_upper_char_eq_iff)

lemma isMesmoEstado_strings:
  "isMesmoEstado e (JStr a) (JStr b) = Inr (toUpperCase e a = toUpperCase e b)"
  by (simp add: isMesmoEstado_def string_receiver_def)

lemma nfe_focusPayload_items:
  assumes "nfe_focusPayload e org cfg n itens = Inr (ref, p)"
      and "col cfg ''uf'' = JStr a" and "col n ''destinatario_uf'' = JStr b"
  shows "\<exists>items. get_prop p ''items'' = JArr items
           \<and> focusItens e (toUpperCase e a = toUpperCase e b) itens = Inr items"
  using assms
  by (auto simp: nfe_focusPayload_def isMesmoEstado_strings Let_def
           split: sum.splits if_splits)





lemma focusFetch_fails:
  assumes "gateway e (focus_request e ep m tok url body) = FetchRejects reason
           \<or> (gateway e (focus_request e ep m tok url body) = HttpResponse st parsed
               \<and> \<not> (200 \<le> st \<and> st \<le> 299))"
  shows "\<exists>x. fst (focusFetch e w ep m tok url body) = Inl x"
  using assms
  by (auto simp: focusFetch_def Let_def split: sum.splits)

lemma submission_fails_nfe:
  assumes checks: "nfe_checks e w orgId nid = Inr (org, n, itens, cfg)"
      and payload: "nfe_focusPayload e org cfg n itens = Inr (ref, p)"
      and token: "resolveFocusToken e cfg = Inr tok"
      and fails: "gateway e (focus_request e (''/v2/nfe?ref='' @ encodeURIComponent ref) ''POST'' tok
                              (resolveFocusApiUrl e cfg) p) = FetchRejects reason
           \<or> (gateway e (focus_request e (''/v2/nfe?ref='' @ encodeURIComponent ref) ''POST'' tok
                              (resolveFocusApiUrl e cfg) p) = HttpResponse st parsed
               \<and> \<not> (200 \<le> st \<and> st \<le> 299))"
  shows "\<exists>msg. fst (emit_nfe e w orgId nid) = Text (''Erro ao emitir NFe: '' @ msg)"
proof -
  define w1 where "w1 = w\<lparr> notas_fiscais := update_eq (notas_fiscais w) ''id'' (JStr nid)
                  [(''status'', JStr ''processando''), (''focus_nfe_ref'', JStr ref),
                   (''updated_at'', JStr (iso_now e))] \<rparr>"
  from focusFetch_fails [OF fails, of w1] obtain x w2 where
    ff: "focusFetch e w1 (''/v2/nfe?ref='' @ encodeURIComponent ref) ''POST'' tok
           (resolveFocusApiUrl e cfg) p = (Inl x, w2)"
    by (metis prod.collapse)
  have attempt: "nfe_try e w org nid cfg ref p = (Inl x, w2)"
    using ff by (simp add: nfe_try_def Let_def token w1_def [symmetric])
  have emit: "emit_nfe e w orgId nid = emit_catch e w2 org nid ''NFe'' x"
    by (simp add: emit_nfe_def checks payload attempt)
  obtain res w' where c: "emit_catch e w2 org nid ''NFe'' x = (res, w')"
    by (cases "emit_catch e w2 org nid ''NFe'' x")
  from emit_catch_effect(1) [OF c] have "fst (emit_nfe e w orgId nid) = Text (''Erro ao emitir NFe: '' @ message x)"
    by (simp add: emit c)
  then show ?thesis by blast
qed

lemma submission_fails_nfse:
  assumes checks: "nfse_checks e w orgId nid = Inr (org, n, cfg)"
      and payload: "nfse_focusPayload e org cfg n = Inr (ref, p)"
      and token: "resolveFocusToken e cfg = Inr tok"
      and fails: "gateway e (focus_request e (''/v2/nfse?ref='' @ encodeURIComponent ref) ''POST'' tok
                              (resolveFocusApiUrl e cfg) p) = FetchRejects reason
           \<or> (gateway e (focus_request e (''/v2/nfse?ref='' @ encodeURIComponent ref) ''POST'' tok
                              (resolveFocusApiUrl e cfg) p) = HttpResponse st parsed
               \<and> \<not> (200 \<le> st \<and> st \<le> 299))"
  shows "\<exists>msg. fst (emit_nfse e w orgId nid) = Text (''Erro ao emitir NFSe: '' @ msg)"
proof -
  define w1 where "w1 = w\<lparr> notas_fiscais := update_eq (notas_fiscais w) ''id'' (JStr nid)
                  [(''status'', JStr ''processando''), (''focus_nfe_ref'', JStr ref),
                   (''updated_at'', JStr (iso_now e))] \<rparr>"
  from focusFetch_fails [OF fails, of w1] obtain x w2 where
    ff: "focusFetch e w1 (''/v2/nfse?ref='' @ encodeURIComponent ref) ''POST'' tok
           (resolveFocusApiUrl e cfg) p = (Inl x, w2)"
    by (metis prod.collapse)
  have attempt: "nfse_try e w org nid cfg ref p = (Inl x, w2)"
    using ff by (simp add: nfse_try_def Let_def token w1_def [symmetric])
  have emit: "emit_nfse e w orgId nid = emit_catch e w2 org nid ''NFSe'' x"
    by (simp add: emit_nfse_def checks payload attempt)
  obtain res w' where c: "emit_catch e w2 org nid ''NFSe'' x = (res, w')"
    by (cases "emit_catch e w2 org nid ''NFSe'' x")
  from emit_catch_effect(1) [OF c] have "fst (emit_nfse e w orgId nid) = Text (''Erro ao emitir NFSe: '' @ message x)"
    by (simp add: emit c)
  then show ?thesis by blast
qed




section \<open>The sample tenant, run\<close>

lemmas run_defs =
  emit_nfe_def nfe_checks_def nfe_focusPayload_def nfe_try_def nfe_store_result_def nfe_updateData_def
  nfe_status_def emit_catch_def focusFetch_def resolveFocusToken_def resolveFocusApiUrl_def
  emit_nfse_def nfse_checks_def nfse_focusPayload_def nfse_try_def nfse_store_result_def nfse_updateData_def
  nfse_status_def error_mensagem_def erros_mensagem_def opt_prop_def
  select_eq_def single_def update_eq_def insert_row_def order_by_numero_item_def
  certificado_expirado_def isMesmoEstado_def string_receiver_def toUpperCase_def upper_char_def
  is_ascii_def substring_def toString_def
  focusItens_def focusItem_def strip_non_digits_def opt_strip_non_digits_def is_digit_def
  nullish_def js_or_def table_index_def ICMS_ORIGEM_MAP_def PRESENCA_MAP_def FINALIDADE_MAP_def
  Object_prototype_def getCfopVenda_def env_var_def parseInt_123
  col_upd col_empty col_override sent_columns_Cons sent_columns_Nil Let_def

lemma run_nfe_authorized:
  "case emit_nfe sample_env sample_world (Some ''org-0001-xyz'') ''n1'' of (res, w') \<Rightarrow>
     (\<exists>nota. res = Success nota (JStr ''autorizado''))
     \<and> notas_fiscais w' \<noteq> []
     \<and> col (hd (notas_fiscais w')) ''id'' = JStr ''n1''
     \<and> col (hd (notas_fiscais w')) ''status'' = JStr ''autorizada''
     \<and> fiscal_config w' \<noteq> []
     \<and> col (hd (fiscal_config w')) ''organization_id'' = JStr ''org-0001-xyz''
     \<and> col (hd (fiscal_config w')) ''nfe_ultimo_numero'' = JNum 123
     \<and> gateway sample_env (last (gateway_calls w'))
           = HttpResponse 200 (Inr (JObj [(''status'', JStr ''autorizado''), (''numero'', JStr ''123'')]))"
  by (simp add: run_defs sample_defs)

lemma run_nfse_authorized:
  "case emit_nfse sample_env sample_world (Some ''org-0001-xyz'') ''s1'' of (res, w') \<Rightarrow>
     (\<exists>nota. res = Success nota (JStr ''autorizado''))
     \<and> notas_fiscais w' \<noteq> []
     \<and> col (last (notas_fiscais w')) ''id'' = JStr ''s1''
     \<and> col (last (notas_fiscais w')) ''status'' = JStr ''autorizada''
     \<and> fiscal_config w' \<noteq> []
     \<and> col (hd (fiscal_config w')) ''organization_id'' = JStr ''org-0001-xyz''
     \<and> col (hd (fiscal_config w')) ''nfse_ultimo_numero'' = JNum 123
     \<and> gateway sample_env (last (gateway_calls w'))
           = HttpResponse 200 (Inr (JObj [(''status'', JStr ''autorizado''), (''numero'', JStr ''123'')]))"
  by (simp add: run_defs sample_defs)



lemma run_nfe_unreachable:
  "case emit_nfe sample_env_unreachable sample_world (Some ''org-0001-xyz'') ''n1'' of (res, w') \<Rightarrow>
     res = Text ''Erro ao emitir NFe: fetch failed''
     \<and> notas_fiscais w' \<noteq> []
     \<and> col (hd (notas_fiscais w')) ''id'' = JStr ''n1''
     \<and> length (gateway_calls w') = 1"
  by (simp add: run_defs sample_defs)

lemma run_nfse_rejected:
  "case emit_nfse sample_env_rejecting sample_world (Some ''org-0001-xyz'') ''s1'' of (res, w') \<Rightarrow>
     res = Text ''Erro ao emitir NFSe: CNPJ do emitente nao autorizado''
     \<and> notas_fiscais w' \<noteq> []
     \<and> col (last (notas_fiscais w')) ''id'' = JStr ''s1''
     \<and> length (gateway_calls w') = 1"
  by (simp add: run_defs sample_defs)

lemma run_nfe_no_token:
  "case emit_nfe sample_env sample_world_no_token (Some ''org-0001-xyz'') ''n1'' of (res, w') \<Rightarrow>
     col (hd (notas_fiscais w')) ''id'' = JStr ''n1''
     \<and> col (hd (notas_fiscais w')) ''status'' = JStr ''erro''
     \<and> col (hd (notas_fiscais w')) ''focus_nfe_ref'' = JStr (generateFocusRef sample_env ''org-0001-xyz'' ''nfe'')
     \<and> length (fiscal_eventos w') = 1"
  by (simp add: run_defs sample_defs)

lemma sample_tokens:
  "resolveFocusToken sample_env_unreachable sample_config = Inr (JStr ''tok'')"
  "resolveFocusToken sample_env_rejecting sample_config = Inr (JStr ''tok'')"
  by (simp_all add: run_defs sample_defs)

lemma sample_checks:
  "nfe_checks sample_env_unreachable sample_world (Some ''org-0001-xyz'') ''n1''
     = Inr (''org-0001-xyz'', sample_nfe, [sample_item], sample_config)"
  "nfse_checks sample_env_rejecting sample_world (Some ''org-0001-xyz'') ''s1''
     = Inr (''org-0001-xyz'', sample_nfse, sample_config)"
  by (simp_all add: run_defs sample_defs)

lemma sample_payloads:
  "\<exists>ref p. nfe_focusPayload sample_env_unreachable ''org-0001-xyz'' sample_config sample_nfe [sample_item]
          = Inr (ref, p)"
  "\<exists>ref p. nfse_focusPayload sample_env_rejecting ''org-0001-xyz'' sample_config sample_nfse
          = Inr (ref, p)"
  by (simp_all add: run_defs sample_defs)


lemma sample_nfe_payload:
  "\<exists>ref p. nfe_focusPayload sample_env ''org-0001-xyz'' sample_config sample_nfe [sample_item] = Inr (ref, p)"
  by (simp add: run_defs sample_defs)

lemma sample_nfe_rj_payload:
  "\<exists>ref p. nfe_focusPayload sample_env ''org-0001-xyz'' sample_config sample_nfe_rj [sample_item] = Inr (ref, p)"
  by (simp add: run_defs sample_defs sample_nfe_rj_def)


lemma sample_no_token_checks:
  "nfe_checks sample_env sample_world_no_token (Some ''org-0001-xyz'') ''n1''
     = Inr (''org-0001-xyz'', sample_nfe, [sample_item], sample_config_no_token)"
  "nfse_checks sample_env sample_world_no_token (Some ''org-0001-xyz'') ''s1''
     = Inr (''org-0001-xyz'', sample_nfse, sample_config_no_token)"
  by (simp_all add: run_defs sample_defs)

lemma sample_no_token_payload:
  "\<exists>p. nfe_focusPayload sample_env ''org-0001-xyz'' sample_config_no_token sample_nfe [sample_item]
          = Inr (generateFocusRef sample_env ''org-0001-xyz'' ''nfe'', p)"
  "\<exists>p. nfse_focusPayload sample_env ''org-0001-xyz'' sample_config_no_token sample_nfse
          = Inr (generateFocusRef sample_env ''org-0001-xyz'' ''nfse'', p)"
  by (simp_all add: run_defs sample_defs)

lemma sample_no_token:
  "\<not> truthy (if col sample_config_no_token ''focus_nfe_ambiente'' = JStr ''producao''
               then col sample_config_no_token ''focus_nfe_token_producao''
               else col sample_config_no_token ''focus_nfe_token_homologacao'')"
  "\<not> truthy (col sample_config_no_token ''focus_nfe_token'')"
  "\<not> truthy (env_var (FOCUS_NFE_MASTER_TOKEN sample_env))"
  by (simp_all add: sample_defs col_upd col_empty env_var_def)

lemma sample_expired_runs:
  "fst (emit_nfe sample_env_expired sample_world_expired (Some ''org-0001-xyz'') ''n1'')
     = Text ''Certificado digital expirado''"
  "\<exists>nota. fst (emit_nfse sample_env_expired sample_world_expired (Some ''org-0001-xyz'') ''s1'')
     = Success nota (JStr ''autorizado'')"
  by (simp_all add: run_defs sample_defs)

section \<open>The certificate check\<close>

text \<open>
  C10. When the tenant's configuration has no (truthy) certificate expiry date, emit_nfe
  never returns the expired-certificate message and its outcome does not depend on the clock
  or on how dates are read; emit_nfse never returns that message and never depends on the
  clock or on how dates are read, whatever the configuration holds.
\<close>

theorem certificate_checked_only_when_dated:
  "(single (select_eq (fiscal_config w) [(''organization_id'', JStr org)]) = Some cfg
      \<and> \<not> truthy (col cfg ''certificado_validade'')
    \<longrightarrow> fst (emit_nfe e w (Some org) nid) \<noteq> Text ''Certificado digital expirado''
        \<and> emit_nfe (e\<lparr>today_ms := t, date_ms := f\<rparr>) w (Some org) nid = emit_nfe e w (Some org) nid)
   \<and> fst (emit_nfse e w orgId nid) \<noteq> Text ''Certificado digital expirado''
   \<and> emit_nfse (e\<lparr>today_ms := t, date_ms := f\<rparr>) w orgId nid = emit_nfse e w orgId nid"
  using emit_nfe_not_expired [where w = w and org = org and cfg = cfg and e = e and nid = nid]
        emit_nfe_clock [where w = w and org = org and cfg = cfg and e = e and t = t and f = f and nid = nid]
        emit_nfse_not_expired [where e = e and w = w and orgId = orgId and nid = nid]
        emit_nfse_clock [where e = e and t = t and f = f and w = w and orgId = orgId and nid = nid]
  by blast

theorem certificate_checked_only_when_dated_witness:
  "single (select_eq (fiscal_config sample_world) [(''organization_id'', JStr ''org-0001-xyz'')])
     = Some sample_config
   \<and> \<not> truthy (col sample_config ''certificado_validade'')
   \<and> fst (emit_nfe sample_env sample_world (Some ''org-0001-xyz'') ''n1'')
        \<noteq> Text ''Certificado digital expirado''
   \<and> emit_nfe (sample_env\<lparr>today_ms := 0, date_ms := past_date\<rparr>) sample_world (Some ''org-0001-xyz'') ''n1''
        = emit_nfe sample_env sample_world (Some ''org-0001-xyz'') ''n1''
   \<and> fst (emit_nfe sample_env_expired sample_world_expired (Some ''org-0001-xyz'') ''n1'')
        = Text ''Certificado digital expirado''
   \<and> fst (emit_nfse sample_env_expired sample_world_expired (Some ''org-0001-xyz'') ''s1'')
        \<noteq> Text ''Certificado digital expirado''
   \<and> (\<exists>nota. fst (emit_nfse sample_env_expired sample_world_expired (Some ''org-0001-xyz'') ''s1'')
        = Success nota (JStr ''autorizado''))"
proof -
  have found: "single (select_eq (fiscal_config sample_world) [(''organization_id'', JStr ''org-0001-xyz'')])
     = Some sample_config"
    by (simp add: sample_defs select_eq_def single_def col_upd col_empty)
  have undated: "\<not> truthy (col sample_config ''certificado_validade'')"
    by (simp add: sample_defs col_upd col_empty)
  from certificate_checked_only_when_dated
         [where w = sample_world and org = "''org-0001-xyz''" and cfg = sample_config
            and e = sample_env and nid = "''n1''" and t = 0 and f = past_date
            and orgId = "Some ''org-0001-xyz''"]
       found undated
  have "fst (emit_nfe sample_env sample_world (Some ''org-0001-xyz'') ''n1'')
          \<noteq> Text ''Certificado digital expirado''
        \<and> emit_nfe (sample_env\<lparr>today_ms := 0, date_ms := past_date\<rparr>) sample_world (Some ''org-0001-xyz'') ''n1''
          = emit_nfe sample_env sample_world (Some ''org-0001-xyz'') ''n1''"
    by blast
  moreover from certificate_checked_only_when_dated
         [where w = sample_world_expired and e = sample_env_expired and nid = "''s1''"
            and orgId = "Some ''org-0001-xyz''"]
  have "fst (emit_nfse sample_env_expired sample_world_expired (Some ''org-0001-xyz'') ''s1'')
          \<noteq> Text ''Certificado digital expirado''"
    by blast
  ultimately show ?thesis using found undated sample_expired_runs by blast
qed

section \<open>The payload\<close>

text \<open>
  C7. When the tenant's and the recipient's region codes are ASCII strings, every line item
  of the goods payload that has no (truthy) operation code of its own, whatever its tax
  fields, gets the code \<open>5102\<close> (operation inside the state) when the two region codes are
  equal up to the case of the letters a to z, and \<open>6102\<close> (interstate) otherwise; the items
  keep their number and order. getCfopVenda gives \<open>5102\<close> and \<open>5405\<close> inside the state and
  \<open>6102\<close> and \<open>6405\<close> across states, without and with tax substitution.
\<close>

theorem cfop_by_region:
  assumes "nfe_focusPayload e org cfg n itens = Inr (ref, p)"
      and "col cfg ''uf'' = JStr a" and "col n ''destinatario_uf'' = JStr b"
      and "\<forall>ch\<in>set a. (of_char ch :: nat) < 128" and "\<forall>ch\<in>set b. (of_char ch :: nat) < 128"
  shows "\<exists>items. get_prop p ''items'' = JArr items \<and> length items = length itens
           \<and> (\<forall>i<length itens. \<not> truthy (col (itens ! i) ''cfop'') \<longrightarrow>
                 get_prop (items ! i) ''cfop''
                   = JStr (if equal_ignoring_case a b then ''5102'' else ''6102''))
           \<and> getCfopVenda True False = ''5102'' \<and> getCfopVenda True True = ''5405''
           \<and> getCfopVenda False False = ''6102'' \<and> getCfopVenda False True = ''6405''"
proof -
  from assms(4,5) have ascii: "is_ascii a" "is_ascii b"
    by (simp_all add: is_ascii_def list_all_iff)
  from nfe_focusPayload_items [OF assms(1,2,3)] obtain items where items: "get_prop p ''items'' = JArr items"
    and built: "focusItens e (toUpperCase e a = toUpperCase e b) itens = Inr items"
    by blast
  from built have m: "map_index (focusItem e (equal_ignoring_case a b)) 0 itens = Inr items"
    by (simp add: focusItens_def toUpperCase_eq_iff [OF ascii])
  from map_index_nth [OF m] have len: "length items = length itens"
    and each: "\<forall>i<length itens. focusItem e (equal_ignoring_case a b) i (itens ! i) = Inr (items ! i)"
    by simp_all
  have "\<forall>i<length itens. \<not> truthy (col (itens ! i) ''cfop'') \<longrightarrow>
          get_prop (items ! i) ''cfop'' = JStr (if equal_ignoring_case a b then ''5102'' else ''6102'')"
  proof (intro allI impI)
    fix i assume "i < length itens" and "\<not> truthy (col (itens ! i) ''cfop'')"
    with each focusItem_cfop [of e "equal_ignoring_case a b" i "itens ! i" "items ! i"]
    show "get_prop (items ! i) ''cfop'' = JStr (if equal_ignoring_case a b then ''5102'' else ''6102'')"
      by (simp add: getCfopVenda_def)
  qed
  moreover have "getCfopVenda True False = ''5102'' \<and> getCfopVenda True True = ''5405''
           \<and> getCfopVenda False False = ''6102'' \<and> getCfopVenda False True = ''6405''"
    by (simp add: getCfopVenda_def)
  ultimately show ?thesis using items len by blast
qed

theorem cfop_by_region_witness:
  "col sample_config ''uf'' = JStr ''SP'' \<and> col sample_nfe ''destinatario_uf'' = JStr ''sp''
   \<and> col sample_nfe_rj ''destinatario_uf'' = JStr ''RJ''
   \<and> \<not> truthy (col ([sample_item] ! 0) ''cfop'')
   \<and> (\<exists>ref p items.
         nfe_focusPayload sample_env ''org-0001-xyz'' sample_config sample_nfe [sample_item] = Inr (ref, p)
         \<and> get_prop p ''items'' = JArr items \<and> length items = 1
         \<and> get_prop (items ! 0) ''cfop'' = JStr ''5102'')
   \<and> (\<exists>ref p items.
         nfe_focusPayload sample_env ''org-0001-xyz'' sample_config sample_nfe_rj [sample_item] = Inr (ref, p)
         \<and> get_prop p ''items'' = JArr items \<and> length items = 1
         \<and> get_prop (items ! 0) ''cfop'' = JStr ''6102'')"
proof -
  from sample_nfe_payload obtain ref p where
    payload: "nfe_focusPayload sample_env ''org-0001-xyz'' sample_config sample_nfe [sample_item] = Inr (ref, p)"
    by blast
  from sample_nfe_rj_payload obtain ref' p' where
    payload': "nfe_focusPayload sample_env ''org-0001-xyz'' sample_config sample_nfe_rj [sample_item] = Inr (ref', p')"
    by blast
  have uf: "col sample_config ''uf'' = JStr ''SP''" and uf': "col sample_nfe ''destinatario_uf'' = JStr ''sp''"
    and uf'': "col sample_nfe_rj ''destinatario_uf'' = JStr ''RJ''"
    and no_cfop: "\<not> truthy (col ([sample_item] ! 0) ''cfop'')"
    by (simp_all add: sample_defs sample_nfe_rj_def col_upd col_empty)
  have ascii: "\<forall>ch\<in>set ''SP''. (of_char ch :: nat) < 128" "\<forall>ch\<in>set ''sp''. (of_char ch :: nat) < 128"
    "\<forall>ch\<in>set ''RJ''. (of_char ch :: nat) < 128"
    by simp_all
  have same: "equal_ignoring_case ''SP'' ''sp''" and other: "\<not> equal_ignoring_case ''SP'' ''RJ''"
    by (simp_all add: equal_ignoring_case_def same_letter_def)
  from cfop_by_region [OF payload uf uf' ascii(1,2)] obtain items where
    "get_prop p ''items'' = JArr items" "length items = length [sample_item]"
    "\<forall>i<length [sample_item]. \<not> truthy (col ([sample_item] ! i) ''cfop'') \<longrightarrow>
        get_prop (items ! i) ''cfop'' = JStr (if equal_ignoring_case ''SP'' ''sp'' then ''5102'' else ''6102'')"
    by blast
  with no_cfop same have inside: "get_prop p ''items'' = JArr items \<and> length items = 1
         \<and> get_prop (items ! 0) ''cfop'' = JStr ''5102''"
    by simp
  from cfop_by_region [OF payload' uf uf'' ascii(1,3)] obtain items' where
    "get_prop p' ''items'' = JArr items'" "length items' = length [sample_item]"
    "\<forall>i<length [sample_item]. \<not> truthy (col ([sample_item] ! i) ''cfop'') \<longrightarrow>
        get_prop (items' ! i) ''cfop'' = JStr (if equal_ignoring_case ''SP'' ''RJ'' then ''5102'' else ''6102'')"
    by blast
  with no_cfop other have across: "get_prop p' ''items'' = JArr items' \<and> length items' = 1
         \<and> get_prop (items' ! 0) ''cfop'' = JStr ''6102''"
    by simp
  from payload payload' uf uf' uf'' no_cfop inside across show ?thesis by blast
qed



section \<open>Outcome of the exchange\<close>



text \<open>
  C4. When the loads and checks pass, the payload is built and a credential resolves, and the
  exchange fails (the transport rejects, or the gateway answers outside 200 to 299), emit
  returns the submission-failure message \<open>Erro ao emitir NFe: msg\<close> (or \<open>NFSe\<close>).
  Whenever emit returns that message, every stored document with the emitted id has status
  \<open>erro\<close> and carries the message, and the event table has grown by exactly one row, of
  kind \<open>erro\<close>, with that message, for that document.
\<close>

theorem submission_failure_recorded:
  "(nfe_checks e w orgId nid = Inr (org, n, itens, cfg)
      \<and> nfe_focusPayload e org cfg n itens = Inr (ref, p)
      \<and> resolveFocusToken e cfg = Inr tok
      \<and> (gateway e (focus_request e (''/v2/nfe?ref='' @ encodeURIComponent ref) ''POST'' tok
                       (resolveFocusApiUrl e cfg) p) = FetchRejects reason
          \<or> (gateway e (focus_request e (''/v2/nfe?ref='' @ encodeURIComponent ref) ''POST'' tok
                       (resolveFocusApiUrl e cfg) p) = HttpResponse st parsed
              \<and> \<not> (200 \<le> st \<and> st \<le> 299)))
    \<longrightarrow> (\<exists>m. fst (emit_nfe e w orgId nid) = Text (''Erro ao emitir NFe: '' @ m)))
   \<and> (emit_nfe e w orgId nid = (Text (''Erro ao emitir NFe: '' @ msg), w') \<longrightarrow>
      (\<forall>r\<in>set (notas_fiscais w'). col r ''id'' = JStr nid \<longrightarrow>
             col r ''status'' = JStr ''erro'' \<and> col r ''mensagem_sefaz'' = JStr msg)
       \<and> (\<exists>ev. fiscal_eventos w' = fiscal_eventos w @ [ev] \<and> col ev ''tipo'' = JStr ''erro''
                \<and> col ev ''mensagem'' = JStr msg \<and> col ev ''nota_fiscal_id'' = JStr nid))
   \<and> (nfse_checks e w orgId nid = Inr (org, n, cfg)
      \<and> nfse_focusPayload e org cfg n = Inr (ref, p)
      \<and> resolveFocusToken e cfg = Inr tok
      \<and> (gateway e (focus_request e (''/v2/nfse?ref='' @ encodeURIComponent ref) ''POST'' tok
                       (resolveFocusApiUrl e cfg) p) = FetchRejects reason
          \<or> (gateway e (focus_request e (''/v2/nfse?ref='' @ encodeURIComponent ref) ''POST'' tok
                       (resolveFocusApiUrl e cfg) p) = HttpResponse st parsed
              \<and> \<not> (200 \<le> st \<and> st \<le> 299)))
    \<longrightarrow> (\<exists>m. fst (emit_nfse e w orgId nid) = Text (''Erro ao emitir NFSe: '' @ m)))
   \<and> (emit_nfse e w orgId nid = (Text (''Erro ao emitir NFSe: '' @ msg), w') \<longrightarrow>
      (\<forall>r\<in>set (notas_fiscais w'). col r ''id'' = JStr nid \<longrightarrow>
             col r ''status'' = JStr ''erro'' \<and> col r ''mensagem_sefaz'' = JStr msg)
       \<and> (\<exists>ev. fiscal_eventos w' = fiscal_eventos w @ [ev] \<and> col ev ''tipo'' = JStr ''erro''
                \<and> col ev ''mensagem'' = JStr msg \<and> col ev ''nota_fiscal_id'' = JStr nid))"
proof (intro conjI)
  show "nfe_checks e w orgId nid = Inr (org, n, itens, cfg)
      \<and> nfe_focusPayload e org cfg n itens = Inr (ref, p)
      \<and> resolveFocusToken e cfg = Inr tok
      \<and> (gateway e (focus_request e (''/v2/nfe?ref='' @ encodeURIComponent ref) ''POST'' tok
                       (resolveFocusApiUrl e cfg) p) = FetchRejects reason
          \<or> (gateway e (focus_request e (''/v2/nfe?ref='' @ encodeURIComponent ref) ''POST'' tok
                       (resolveFocusApiUrl e cfg) p) = HttpResponse st parsed
              \<and> \<not> (200 \<le> st \<and> st \<le> 299)))
    \<longrightarrow> (\<exists>m. fst (emit_nfe e w orgId nid) = Text (''Erro ao emitir NFe: '' @ m))"
    using submission_fails_nfe [where e = e and w = w and orgId = orgId and nid = nid and org = org
            and n = n and itens = itens and cfg = cfg and ref = ref and p = p and tok = tok
            and reason = reason and st = st and parsed = parsed]
    by blast
  show "nfse_checks e w orgId nid = Inr (org, n, cfg)
      \<and> nfse_focusPayload e org cfg n = Inr (ref, p)
      \<and> resolveFocusToken e cfg = Inr tok
      \<and> (gateway e (focus_request e (''/v2/nfse?ref='' @ encodeURIComponent ref) ''POST'' tok
                       (resolveFocusApiUrl e cfg) p) = FetchRejects reason
          \<or> (gateway e (focus_request e (''/v2/nfse?ref='' @ encodeURIComponent ref) ''POST'' tok
                       (resolveFocusApiUrl e cfg) p) = HttpResponse st parsed
              \<and> \<not> (200 \<le> st \<and> st \<le> 299)))
    \<longrightarrow> (\<exists>m. fst (emit_nfse e w orgId nid) = Text (''Erro ao emitir NFSe: '' @ m))"
    using submission_fails_nfse [where e = e and w = w and orgId = orgId and nid = nid and org = org
            and n = n and cfg = cfg and ref = ref and p = p and tok = tok
            and reason = reason and st = st and parsed = parsed]
    by blast
  show "emit_nfe e w orgId nid = (Text (''Erro ao emitir NFe: '' @ msg), w') \<longrightarrow>
      (\<forall>r\<in>set (notas_fiscais w'). col r ''id'' = JStr nid \<longrightarrow>
             col r ''status'' = JStr ''erro'' \<and> col r ''mensagem_sefaz'' = JStr msg)
       \<and> (\<exists>ev. fiscal_eventos w' = fiscal_eventos w @ [ev] \<and> col ev ''tipo'' = JStr ''erro''
                \<and> col ev ''mensagem'' = JStr msg \<and> col ev ''nota_fiscal_id'' = JStr nid)"
    using failure_recorded_nfe [of e w orgId nid msg w'] by blast
  show "emit_nfse e w orgId nid = (Text (''Erro ao emitir NFSe: '' @ msg), w') \<longrightarrow>
      (\<forall>r\<in>set (notas_fiscais w'). col r ''id'' = JStr nid \<longrightarrow>
             col r ''status'' = JStr ''erro'' \<and> col r ''mensagem_sefaz'' = JStr msg)
       \<and> (\<exists>ev. fiscal_eventos w' = fiscal_eventos w @ [ev] \<and> col ev ''tipo'' = JStr ''erro''
                \<and> col ev ''mensagem'' = JStr msg \<and> col ev ''nota_fiscal_id'' = JStr nid)"
    using failure_recorded_nfse [of e w orgId nid msg w'] by blast
qed

theorem submission_failure_recorded_witness:
  "nfe_checks sample_env_unreachable sample_world (Some ''org-0001-xyz'') ''n1''
     = Inr (''org-0001-xyz'', sample_nfe, [sample_item], sample_config)
   \<and> resolveFocusToken sample_env_unreachable sample_config = Inr (JStr ''tok'')
   \<and> emit_nfe sample_env_unreachable sample_world (Some ''org-0001-xyz'') ''n1''
     = (Text (''Erro ao emitir NFe: '' @ ''fetch failed''),
        snd (emit_nfe sample_env_unreachable sample_world (Some ''org-0001-xyz'') ''n1''))
   \<and> col (hd (notas_fiscais (snd (emit_nfe sample_env_unreachable sample_world (Some ''org-0001-xyz'') ''n1''))))
         ''status'' = JStr ''erro''
   \<and> col (hd (notas_fiscais (snd (emit_nfe sample_env_unreachable sample_world (Some ''org-0001-xyz'') ''n1''))))
         ''mensagem_sefaz'' = JStr ''fetch failed''
   \<and> length (fiscal_eventos (snd (emit_nfe sample_env_unreachable sample_world (Some ''org-0001-xyz'') ''n1''))) = 1
   \<and> nfse_checks sample_env_rejecting sample_world (Some ''org-0001-xyz'') ''s1''
     = Inr (''org-0001-xyz'', sample_nfse, sample_config)
   \<and> resolveFocusToken sample_env_rejecting sample_config = Inr (JStr ''tok'')
   \<and> emit_nfse sample_env_rejecting sample_world (Some ''org-0001-xyz'') ''s1''
     = (Text (''Erro ao emitir NFSe: '' @ ''CNPJ do emitente nao autorizado''),
        snd (emit_nfse sample_env_rejecting sample_world (Some ''org-0001-xyz'') ''s1''))
   \<and> col (last (notas_fiscais (snd (emit_nfse sample_env_rejecting sample_world (Some ''org-0001-xyz'') ''s1''))))
         ''status'' = JStr ''erro''
   \<and> col (last (notas_fiscais (snd (emit_nfse sample_env_rejecting sample_world (Some ''org-0001-xyz'') ''s1''))))
         ''mensagem_sefaz'' = JStr ''CNPJ do emitente nao autorizado''
   \<and> length (fiscal_eventos (snd (emit_nfse sample_env_rejecting sample_world (Some ''org-0001-xyz'') ''s1''))) = 1"
proof -
  let ?G = "emit_nfe sample_env_unreachable sample_world (Some ''org-0001-xyz'') ''n1''"
  let ?S = "emit_nfse sample_env_rejecting sample_world (Some ''org-0001-xyz'') ''s1''"
  have before: "fiscal_eventos sample_world = []" by (simp add: sample_defs)
  from sample_payloads obtain ref p ref' p' where
    gp: "nfe_focusPayload sample_env_unreachable ''org-0001-xyz'' sample_config sample_nfe [sample_item]
          = Inr (ref, p)"
    and sp: "nfse_focusPayload sample_env_rejecting ''org-0001-xyz'' sample_config sample_nfse
          = Inr (ref', p')"
    by blast
  have down: "gateway sample_env_unreachable
                (focus_request sample_env_unreachable (''/v2/nfe?ref='' @ encodeURIComponent ref) ''POST'' (JStr ''tok'')
                   (resolveFocusApiUrl sample_env_unreachable sample_config) p)
              = FetchRejects ''fetch failed''"
    by (simp add: sample_defs)
  have refused: "gateway sample_env_rejecting
                (focus_request sample_env_rejecting (''/v2/nfse?ref='' @ encodeURIComponent ref') ''POST'' (JStr ''tok'')
                   (resolveFocusApiUrl sample_env_rejecting sample_config) p')
              = HttpResponse 422 (Inr (JObj [(''codigo'', JStr ''nao_autorizado''),
                                  (''mensagem'', JStr ''CNPJ do emitente nao autorizado'')]))"
    by (simp add: sample_defs)
  have "\<exists>m. fst ?G = Text (''Erro ao emitir NFe: '' @ m)"
    using submission_failure_recorded
            [where e = sample_env_unreachable and w = sample_world and orgId = "Some ''org-0001-xyz''"
               and nid = "''n1''" and org = "''org-0001-xyz''" and n = sample_nfe
               and itens = "[sample_item]" and cfg = sample_config and ref = ref and p = p
               and tok = "JStr ''tok''" and reason = "''fetch failed''", THEN conjunct1]
          sample_checks(1) gp sample_tokens(1) down
    by blast
  have "\<exists>m. fst ?S = Text (''Erro ao emitir NFSe: '' @ m)"
    using submission_failure_recorded
            [where e = sample_env_rejecting and w = sample_world and orgId = "Some ''org-0001-xyz''"
               and nid = "''s1''" and org = "''org-0001-xyz''" and n = sample_nfse
               and cfg = sample_config and ref = ref' and p = p'
               and tok = "JStr ''tok''" and st = 422
               and parsed = "Inr (JObj [(''codigo'', JStr ''nao_autorizado''),
                                  (''mensagem'', JStr ''CNPJ do emitente nao autorizado'')])",
             THEN conjunct2, THEN conjunct2, THEN conjunct1]
          sample_checks(2) sp sample_tokens(2) refused
    by simp
  from run_nfe_unreachable have g: "?G = (Text (''Erro ao emitir NFe: '' @ ''fetch failed''), snd ?G)"
    and g_rows: "notas_fiscais (snd ?G) \<noteq> []" and g_id: "col (hd (notas_fiscais (snd ?G))) ''id'' = JStr ''n1''"
    by (cases ?G; simp)+
  from run_nfse_rejected
  have s: "?S = (Text (''Erro ao emitir NFSe: '' @ ''CNPJ do emitente nao autorizado''), snd ?S)"
    and s_rows: "notas_fiscais (snd ?S) \<noteq> []" and s_id: "col (last (notas_fiscais (snd ?S))) ''id'' = JStr ''s1''"
    by (cases ?S; simp)+
  from g_rows have g_in: "hd (notas_fiscais (snd ?G)) \<in> set (notas_fiscais (snd ?G))" by simp
  from s_rows have s_in: "last (notas_fiscais (snd ?S)) \<in> set (notas_fiscais (snd ?S))" by simp
  have G: "col (hd (notas_fiscais (snd ?G))) ''status'' = JStr ''erro''
           \<and> col (hd (notas_fiscais (snd ?G))) ''mensagem_sefaz'' = JStr ''fetch failed''
           \<and> length (fiscal_eventos (snd ?G)) = 1"
    using submission_failure_recorded
            [where e = sample_env_unreachable and w = sample_world and orgId = "Some ''org-0001-xyz''"
               and nid = "''n1''" and msg = "''fetch failed''" and w' = "snd ?G",
             THEN conjunct2, THEN conjunct1]
          g g_in g_id before
    by auto
  have S: "col (last (notas_fiscais (snd ?S))) ''status'' = JStr ''erro''
           \<and> col (last (notas_fiscais (snd ?S))) ''mensagem_sefaz'' = JStr ''CNPJ do emitente nao autorizado''
           \<and> length (fiscal_eventos (snd ?S)) = 1"
    using submission_failure_recorded
            [where e = sample_env_rejecting and w = sample_world and orgId = "Some ''org-0001-xyz''"
               and nid = "''s1''" and msg = "''CNPJ do emitente nao autorizado''" and w' = "snd ?S",
             THEN conjunct2, THEN conjunct2, THEN conjunct2]
          s s_in s_id before
    by auto
  from g s G S sample_checks sample_tokens show ?thesis by blast
qed

text \<open>
  C2 (as the code has it). After an emission that returns success with reported status
  \<open>autorizado\<close>, when the \<open>numero\<close> in the gateway's answer to the request sent is a
  non-empty string of decimal digits writing a number of at most \<open>2\<^sup>5\<^sup>3 - 1\<close>, the tenant's
  last-used-number column of that kind holds that number, whatever it held before; after
  \<open>numero: "123"\<close> it holds 123.
\<close>

theorem counter_set_to_authorized_number:
  "(emit_nfe e w (Some org) nid = (Success nota (JStr ''autorizado''), w')
      \<and> gateway e (last (gateway_calls w')) = HttpResponse st (Inr response)
      \<and> get_prop response ''numero'' = JStr ds
      \<and> ds \<noteq> [] \<and> (\<forall>ch\<in>set ds. ch \<in> set ''0123456789'')
      \<and> decimal_number ds \<le> 9007199254740991
    \<longrightarrow> (\<forall>c\<in>set (fiscal_config w'). col c ''organization_id'' = JStr org \<longrightarrow>
           col c ''nfe_ultimo_numero'' = JNum (decimal_number ds)
           \<and> (ds = ''123'' \<longrightarrow> col c ''nfe_ultimo_numero'' = JNum 123)))
   \<and> (emit_nfse e w (Some org) nid = (Success nota (JStr ''autorizado''), w')
      \<and> gateway e (last (gateway_calls w')) = HttpResponse st (Inr response)
      \<and> get_prop response ''numero'' = JStr ds
      \<and> ds \<noteq> [] \<and> (\<forall>ch\<in>set ds. ch \<in> set ''0123456789'')
      \<and> decimal_number ds \<le> 9007199254740991
    \<longrightarrow> (\<forall>c\<in>set (fiscal_config w'). col c ''organization_id'' = JStr org \<longrightarrow>
           col c ''nfse_ultimo_numero'' = JNum (decimal_number ds)
           \<and> (ds = ''123'' \<longrightarrow> col c ''nfse_ultimo_numero'' = JNum 123)))"
proof -
  have written: "decimal_number ''123'' = 123" by (simp add: decimal_number_def)
  have parsed: "parseInt e (get_prop response ''numero'') = JNum (decimal_number ds)"
    and carried: "truthy (get_prop response ''numero'')"
    if "get_prop response ''numero'' = JStr ds" "ds \<noteq> []" "\<forall>ch\<in>set ds. ch \<in> set ''0123456789''"
       "decimal_number ds \<le> 9007199254740991"
  proof -
    from that(3) have "\<forall>ch\<in>set ds. is_digit ch" using is_digit_chars by blast
    with that(1,2,4) show "parseInt e (get_prop response ''numero'') = JNum (decimal_number ds)"
      by (simp add: parseInt_digits)
    from that(1,2) show "truthy (get_prop response ''numero'')" by simp
  qed
  show ?thesis
  proof (intro conjI impI ballI; (elim conjE)?)
    fix c
    assume run: "emit_nfe e w (Some org) nid = (Success nota (JStr ''autorizado''), w')"
      and answer: "gateway e (last (gateway_calls w')) = HttpResponse st (Inr response)"
      and numero: "get_prop response ''numero'' = JStr ds" "ds \<noteq> []"
        "\<forall>ch\<in>set ds. ch \<in> set ''0123456789''" "decimal_number ds \<le> 9007199254740991"
      and c: "c \<in> set (fiscal_config w')" "col c ''organization_id'' = JStr org"
    from run answer carried [OF numero] parsed [OF numero] c
    show "col c ''nfe_ultimo_numero'' = JNum (decimal_number ds)"
      by (rule counter_overwritten_nfe)
    then show "col c ''nfe_ultimo_numero'' = JNum 123" if "ds = ''123''"
      using that written by simp
  next
    fix c
    assume run: "emit_nfse e w (Some org) nid = (Success nota (JStr ''autorizado''), w')"
      and answer: "gateway e (last (gateway_calls w')) = HttpResponse st (Inr response)"
      and numero: "get_prop response ''numero'' = JStr ds" "ds \<noteq> []"
        "\<forall>ch\<in>set ds. ch \<in> set ''0123456789''" "decimal_number ds \<le> 9007199254740991"
      and c: "c \<in> set (fiscal_config w')" "col c ''organization_id'' = JStr org"
    from run answer carried [OF numero] parsed [OF numero] c
    show "col c ''nfse_ultimo_numero'' = JNum (decimal_number ds)"
      by (rule counter_overwritten_nfse)
    then show "col c ''nfse_ultimo_numero'' = JNum 123" if "ds = ''123''"
      using that written by simp
  qed
qed

theorem counter_set_to_authorized_number_witness:
  "(\<exists>nota. fst (emit_nfe sample_env sample_world (Some ''org-0001-xyz'') ''n1'')
              = Success nota (JStr ''autorizado''))
   \<and> gateway sample_env (last (gateway_calls (snd (emit_nfe sample_env sample_world (Some ''org-0001-xyz'') ''n1''))))
       = HttpResponse 200 (Inr (JObj [(''status'', JStr ''autorizado''), (''numero'', JStr ''123'')]))
   \<and> col (hd (fiscal_config (snd (emit_nfe sample_env sample_world (Some ''org-0001-xyz'') ''n1''))))
         ''nfe_ultimo_numero'' = JNum 123
   \<and> (\<exists>nota. fst (emit_nfse sample_env sample_world (Some ''org-0001-xyz'') ''s1'')
              = Success nota (JStr ''autorizado''))
   \<and> col (hd (fiscal_config (snd (emit_nfse sample_env sample_world (Some ''org-0001-xyz'') ''s1''))))
         ''nfse_ultimo_numero'' = JNum 123"
proof -
  let ?G = "emit_nfe sample_env sample_world (Some ''org-0001-xyz'') ''n1''"
  let ?S = "emit_nfse sample_env sample_world (Some ''org-0001-xyz'') ''s1''"
  let ?R = "JObj [(''status'', JStr ''autorizado''), (''numero'', JStr ''123'')]"
  from run_nfe_authorized obtain g where g: "?G = (Success g (JStr ''autorizado''), snd ?G)"
    and g_cfg: "fiscal_config (snd ?G) \<noteq> []"
    and g_org: "col (hd (fiscal_config (snd ?G))) ''organization_id'' = JStr ''org-0001-xyz''"
    and g_gw: "gateway sample_env (last (gateway_calls (snd ?G))) = HttpResponse 200 (Inr ?R)"
    by (cases ?G) auto
  from run_nfse_authorized obtain s where s: "?S = (Success s (JStr ''autorizado''), snd ?S)"
    and s_cfg: "fiscal_config (snd ?S) \<noteq> []"
    and s_org: "col (hd (fiscal_config (snd ?S))) ''organization_id'' = JStr ''org-0001-xyz''"
    and s_gw: "gateway sample_env (last (gateway_calls (snd ?S))) = HttpResponse 200 (Inr ?R)"
    by (cases ?S) auto
  from g_cfg have g_in: "hd (fiscal_config (snd ?G)) \<in> set (fiscal_config (snd ?G))" by simp
  from s_cfg have s_in: "hd (fiscal_config (snd ?S)) \<in> set (fiscal_config (snd ?S))" by simp
  have numero: "get_prop ?R ''numero'' = JStr ''123''" "''123'' \<noteq> []"
    "\<forall>ch\<in>set ''123''. ch \<in> set ''0123456789''" "decimal_number ''123'' \<le> 9007199254740991"
    by (simp_all add: decimal_number_def)
  have "col (hd (fiscal_config (snd ?G))) ''nfe_ultimo_numero'' = JNum 123"
    using counter_set_to_authorized_number
            [where e = sample_env and w = sample_world and org = "''org-0001-xyz''" and nid = "''n1''"
               and nota = g and w' = "snd ?G" and st = 200 and response = ?R and ds = "''123''"]
          g g_gw g_in g_org numero
    by blast
  moreover have "col (hd (fiscal_config (snd ?S))) ''nfse_ultimo_numero'' = JNum 123"
    using counter_set_to_authorized_number
            [where e = sample_env and w = sample_world and org = "''org-0001-xyz''" and nid = "''s1''"
               and nota = s and w' = "snd ?S" and st = 200 and response = ?R and ds = "''123''"]
          s s_gw s_in s_org numero
    by blast
  moreover have "\<exists>nota. fst ?G = Success nota (JStr ''autorizado'')" using g by (metis fst_conv)
  moreover have "\<exists>nota. fst ?S = Success nota (JStr ''autorizado'')" using s by (metis fst_conv)
  ultimately show ?thesis using g_gw by blast
qed

text \<open>
  C2 as stated fails: the sample tenant's goods counter is 200; the gateway authorizes the
  document with \<open>numero: "123"\<close>; afterwards the counter is 123, below its previous value.
\<close>

theorem counter_decremented:
  "col (hd (fiscal_config sample_world)) ''nfe_ultimo_numero'' = JNum 200
   \<and> col (hd (notas_fiscais (snd (emit_nfe sample_env sample_world (Some ''org-0001-xyz'') ''n1''))))
         ''status'' = JStr ''autorizada''
   \<and> gateway sample_env (last (gateway_calls (snd (emit_nfe sample_env sample_world (Some ''org-0001-xyz'') ''n1''))))
       = HttpResponse 200 (Inr (JObj [(''status'', JStr ''autorizado''), (''numero'', JStr ''123'')]))
   \<and> col (hd (fiscal_config (snd (emit_nfe sample_env sample_world (Some ''org-0001-xyz'') ''n1''))))
         ''nfe_ultimo_numero'' = JNum 123
   \<and> (123 :: int) < 200"
proof -
  have "col (hd (fiscal_config sample_world)) ''nfe_ultimo_numero'' = JNum 200"
    by (simp add: sample_defs col_upd col_empty)
  with run_nfe_authorized show ?thesis
    by (cases "emit_nfe sample_env sample_world (Some ''org-0001-xyz'') ''n1''") simp
qed

text \<open>
  C1 (as the code has it). When the loads and checks pass and the payload is built, and no
  credential resolves (the slot of the configured environment, the legacy field and the
  master credential are all empty), the resolver throws inside the guarded block, after the
  optimistic write: emit returns the submission-failure message carrying the resolver's
  message, no request is sent to the gateway and the tenant's configuration is unchanged,
  every stored document with the emitted id has status \<open>erro\<close>, that message and the
  reference generated for the attempt, and one event row of kind \<open>erro\<close> is inserted.
\<close>

theorem no_credential_attempt_recorded:
  "(nfe_checks e w orgId nid = Inr (org, n, itens, cfg)
      \<and> nfe_focusPayload e org cfg n itens = Inr (ref, p)
      \<and> \<not> truthy (if col cfg ''focus_nfe_ambiente'' = JStr ''producao''
                     then col cfg ''focus_nfe_token_producao''
                     else col cfg ''focus_nfe_token_homologacao'')
      \<and> \<not> truthy (col cfg ''focus_nfe_token'')
      \<and> \<not> truthy (env_var (FOCUS_NFE_MASTER_TOKEN e))
    \<longrightarrow> (\<exists>msg. resolveFocusToken e cfg = Inl (Error msg)
           \<and> fst (emit_nfe e w orgId nid) = Text (''Erro ao emitir NFe: '' @ msg)
           \<and> gateway_calls (snd (emit_nfe e w orgId nid)) = gateway_calls w
           \<and> fiscal_config (snd (emit_nfe e w orgId nid)) = fiscal_config w
           \<and> (\<forall>r\<in>set (notas_fiscais (snd (emit_nfe e w orgId nid))). col r ''id'' = JStr nid \<longrightarrow>
                 col r ''status'' = JStr ''erro'' \<and> col r ''mensagem_sefaz'' = JStr msg
                 \<and> col r ''focus_nfe_ref'' = JStr ref)
           \<and> (\<exists>ev. fiscal_eventos (snd (emit_nfe e w orgId nid)) = fiscal_eventos w @ [ev]
                 \<and> col ev ''tipo'' = JStr ''erro'' \<and> col ev ''mensagem'' = JStr msg
                 \<and> col ev ''nota_fiscal_id'' = JStr nid)))
   \<and> (nfse_checks e w orgId nid = Inr (org, n, cfg)
      \<and> nfse_focusPayload e org cfg n = Inr (ref, p)
      \<and> \<not> truthy (if col cfg ''focus_nfe_ambiente'' = JStr ''producao''
                     then col cfg ''focus_nfe_token_producao''
                     else col cfg ''focus_nfe_token_homologacao'')
      \<and> \<not> truthy (col cfg ''focus_nfe_token'')
      \<and> \<not> truthy (env_var (FOCUS_NFE_MASTER_TOKEN e))
    \<longrightarrow> (\<exists>msg. resolveFocusToken e cfg = Inl (Error msg)
           \<and> fst (emit_nfse e w orgId nid) = Text (''Erro ao emitir NFSe: '' @ msg)
           \<and> gateway_calls (snd (emit_nfse e w orgId nid)) = gateway_calls w
           \<and> fiscal_config (snd (emit_nfse e w orgId nid)) = fiscal_config w
           \<and> (\<forall>r\<in>set (notas_fiscais (snd (emit_nfse e w orgId nid))). col r ''id'' = JStr nid \<longrightarrow>
                 col r ''status'' = JStr ''erro'' \<and> col r ''mensagem_sefaz'' = JStr msg
                 \<and> col r ''focus_nfe_ref'' = JStr ref)
           \<and> (\<exists>ev. fiscal_eventos (snd (emit_nfse e w orgId nid)) = fiscal_eventos w @ [ev]
                 \<and> col ev ''tipo'' = JStr ''erro'' \<and> col ev ''mensagem'' = JStr msg
                 \<and> col ev ''nota_fiscal_id'' = JStr nid)))"
proof (intro conjI impI; elim conjE)
  assume checks: "nfe_checks e w orgId nid = Inr (org, n, itens, cfg)"
    and payload: "nfe_focusPayload e org cfg n itens = Inr (ref, p)"
    and none: "\<not> truthy (if col cfg ''focus_nfe_ambiente'' = JStr ''producao''
                     then col cfg ''focus_nfe_token_producao''
                     else col cfg ''focus_nfe_token_homologacao'')"
      "\<not> truthy (col cfg ''focus_nfe_token'')" "\<not> truthy (env_var (FOCUS_NFE_MASTER_TOKEN e))"
  from no_token_message [OF none] obtain msg where token: "resolveFocusToken e cfg = Inl (Error msg)"
    by blast
  from no_credential_nfe [OF checks payload token] token
  show "\<exists>msg. resolveFocusToken e cfg = Inl (Error msg)
           \<and> fst (emit_nfe e w orgId nid) = Text (''Erro ao emitir NFe: '' @ msg)
           \<and> gateway_calls (snd (emit_nfe e w orgId nid)) = gateway_calls w
           \<and> fiscal_config (snd (emit_nfe e w orgId nid)) = fiscal_config w
           \<and> (\<forall>r\<in>set (notas_fiscais (snd (emit_nfe e w orgId nid))). col r ''id'' = JStr nid \<longrightarrow>
                 col r ''status'' = JStr ''erro'' \<and> col r ''mensagem_sefaz'' = JStr msg
                 \<and> col r ''focus_nfe_ref'' = JStr ref)
           \<and> (\<exists>ev. fiscal_eventos (snd (emit_nfe e w orgId nid)) = fiscal_eventos w @ [ev]
                 \<and> col ev ''tipo'' = JStr ''erro'' \<and> col ev ''mensagem'' = JStr msg
                 \<and> col ev ''nota_fiscal_id'' = JStr nid)"
    by blast
next
  assume checks: "nfse_checks e w orgId nid = Inr (org, n, cfg)"
    and payload: "nfse_focusPayload e org cfg n = Inr (ref, p)"
    and none: "\<not> truthy (if col cfg ''focus_nfe_ambiente'' = JStr ''producao''
                     then col cfg ''focus_nfe_token_producao''
                     else col cfg ''focus_nfe_token_homologacao'')"
      "\<not> truthy (col cfg ''focus_nfe_token'')" "\<not> truthy (env_var (FOCUS_NFE_MASTER_TOKEN e))"
  from no_token_message [OF none] obtain msg where token: "resolveFocusToken e cfg = Inl (Error msg)"
    by blast
  from no_credential_nfse [OF checks payload token] token
  show "\<exists>msg. resolveFocusToken e cfg = Inl (Error msg)
           \<and> fst (emit_nfse e w orgId nid) = Text (''Erro ao emitir NFSe: '' @ msg)
           \<and> gateway_calls (snd (emit_nfse e w orgId nid)) = gateway_calls w
           \<and> fiscal_config (snd (emit_nfse e w orgId nid)) = fiscal_config w
           \<and> (\<forall>r\<in>set (notas_fiscais (snd (emit_nfse e w orgId nid))). col r ''id'' = JStr nid \<longrightarrow>
                 col r ''status'' = JStr ''erro'' \<and> col r ''mensagem_sefaz'' = JStr msg
                 \<and> col r ''focus_nfe_ref'' = JStr ref)
           \<and> (\<exists>ev. fiscal_eventos (snd (emit_nfse e w orgId nid)) = fiscal_eventos w @ [ev]
                 \<and> col ev ''tipo'' = JStr ''erro'' \<and> col ev ''mensagem'' = JStr msg
                 \<and> col ev ''nota_fiscal_id'' = JStr nid)"
    by blast
qed

theorem no_credential_attempt_recorded_witness:
  "nfe_checks sample_env sample_world_no_token (Some ''org-0001-xyz'') ''n1''
     = Inr (''org-0001-xyz'', sample_nfe, [sample_item], sample_config_no_token)
   \<and> \<not> truthy (col sample_config_no_token ''focus_nfe_token_homologacao'')
   \<and> \<not> truthy (col sample_config_no_token ''focus_nfe_token'')
   \<and> \<not> truthy (env_var (FOCUS_NFE_MASTER_TOKEN sample_env))
   \<and> (\<exists>msg. fst (emit_nfe sample_env sample_world_no_token (Some ''org-0001-xyz'') ''n1'')
               = Text (''Erro ao emitir NFe: '' @ msg))
   \<and> gateway_calls (snd (emit_nfe sample_env sample_world_no_token (Some ''org-0001-xyz'') ''n1'')) = []
   \<and> length (fiscal_eventos (snd (emit_nfe sample_env sample_world_no_token (Some ''org-0001-xyz'') ''n1''))) = 1
   \<and> nfse_checks sample_env sample_world_no_token (Some ''org-0001-xyz'') ''s1''
     = Inr (''org-0001-xyz'', sample_nfse, sample_config_no_token)
   \<and> (\<exists>msg. fst (emit_nfse sample_env sample_world_no_token (Some ''org-0001-xyz'') ''s1'')
               = Text (''Erro ao emitir NFSe: '' @ msg))
   \<and> gateway_calls (snd (emit_nfse sample_env sample_world_no_token (Some ''org-0001-xyz'') ''s1'')) = []
   \<and> length (fiscal_eventos (snd (emit_nfse sample_env sample_world_no_token (Some ''org-0001-xyz'') ''s1''))) = 1"
proof -
  from sample_no_token_payload obtain p p' where
    g: "nfe_focusPayload sample_env ''org-0001-xyz'' sample_config_no_token sample_nfe [sample_item]
          = Inr (generateFocusRef sample_env ''org-0001-xyz'' ''nfe'', p)"
    and s: "nfse_focusPayload sample_env ''org-0001-xyz'' sample_config_no_token sample_nfse
          = Inr (generateFocusRef sample_env ''org-0001-xyz'' ''nfse'', p')"
    by blast
  have before: "gateway_calls sample_world_no_token = []" "fiscal_eventos sample_world_no_token = []"
    by (simp_all add: sample_defs)
  have slot: "\<not> truthy (col sample_config_no_token ''focus_nfe_token_homologacao'')"
    by (simp add: sample_defs col_upd col_empty)
  have G: "(\<exists>msg. fst (emit_nfe sample_env sample_world_no_token (Some ''org-0001-xyz'') ''n1'')
               = Text (''Erro ao emitir NFe: '' @ msg))
     \<and> gateway_calls (snd (emit_nfe sample_env sample_world_no_token (Some ''org-0001-xyz'') ''n1'')) = []
     \<and> length (fiscal_eventos (snd (emit_nfe sample_env sample_world_no_token (Some ''org-0001-xyz'') ''n1''))) = 1"
    using no_credential_attempt_recorded
            [where e = sample_env and w = sample_world_no_token and orgId = "Some ''org-0001-xyz''"
               and nid = "''n1''" and org = "''org-0001-xyz''" and n = sample_nfe
               and itens = "[sample_item]" and cfg = sample_config_no_token
               and ref = "generateFocusRef sample_env ''org-0001-xyz'' ''nfe''" and p = p,
             THEN conjunct1]
          sample_no_token_checks(1) g sample_no_token before
    by auto
  have S: "(\<exists>msg. fst (emit_nfse sample_env sample_world_no_token (Some ''org-0001-xyz'') ''s1'')
               = Text (''Erro ao emitir NFSe: '' @ msg))
     \<and> gateway_calls (snd (emit_nfse sample_env sample_world_no_token (Some ''org-0001-xyz'') ''s1'')) = []
     \<and> length (fiscal_eventos (snd (emit_nfse sample_env sample_world_no_token (Some ''org-0001-xyz'') ''s1''))) = 1"
    using no_credential_attempt_recorded
            [where e = sample_env and w = sample_world_no_token and orgId = "Some ''org-0001-xyz''"
               and nid = "''s1''" and org = "''org-0001-xyz''" and n = sample_nfse
               and cfg = sample_config_no_token
               and ref = "generateFocusRef sample_env ''org-0001-xyz'' ''nfse''" and p = p',
             THEN conjunct2]
          sample_no_token_checks(2) s sample_no_token before
    by auto
  from G S sample_no_token_checks sample_no_token(2,3) slot show ?thesis by blast
qed

text \<open>
  C1 as stated fails: the sample tenant has no credential in any of the three places and
  a valid draft; after emit_nfe the document's status is no longer \<open>rascunho\<close> but
  \<open>erro\<close>, the reference of the attempt is stored on it, and an event row exists.
\<close>

theorem no_credential_state_changed:
  "col sample_config_no_token ''focus_nfe_ambiente'' = JUndefined
   \<and> col sample_config_no_token ''focus_nfe_token_homologacao'' = JUndefined
   \<and> col sample_config_no_token ''focus_nfe_token'' = JNull
   \<and> FOCUS_NFE_MASTER_TOKEN sample_env = None
   \<and> col (hd (notas_fiscais sample_world_no_token)) ''id'' = JStr ''n1''
   \<and> col (hd (notas_fiscais sample_world_no_token)) ''status'' = JStr ''rascunho''
   \<and> col (hd (notas_fiscais sample_world_no_token)) ''focus_nfe_ref'' = JUndefined
   \<and> fiscal_eventos sample_world_no_token = []
   \<and> col (hd (notas_fiscais (snd (emit_nfe sample_env sample_world_no_token (Some ''org-0001-xyz'') ''n1''))))
        ''id'' = JStr ''n1''
   \<and> col (hd (notas_fiscais (snd (emit_nfe sample_env sample_world_no_token (Some ''org-0001-xyz'') ''n1''))))
        ''status'' = JStr ''erro''
   \<and> col (hd (notas_fiscais (snd (emit_nfe sample_env sample_world_no_token (Some ''org-0001-xyz'') ''n1''))))
        ''focus_nfe_ref'' = JStr (generateFocusRef sample_env ''org-0001-xyz'' ''nfe'')
   \<and> length (fiscal_eventos (snd (emit_nfe sample_env sample_world_no_token (Some ''org-0001-xyz'') ''n1''))) = 1"
proof -
  have "col sample_config_no_token ''focus_nfe_ambiente'' = JUndefined"
    "col sample_config_no_token ''focus_nfe_token_homologacao'' = JUndefined"
    "col sample_config_no_token ''focus_nfe_token'' = JNull"
    "FOCUS_NFE_MASTER_TOKEN sample_env = None"
    "col (hd (notas_fiscais sample_world_no_token)) ''id'' = JStr ''n1''"
    "col (hd (notas_fiscais sample_world_no_token)) ''status'' = JStr ''rascunho''"
    "col (hd (notas_fiscais sample_world_no_token)) ''focus_nfe_ref'' = JUndefined"
    "fiscal_eventos sample_world_no_token = []"
    by (simp_all add: sample_defs col_upd col_empty)
  with run_nfe_no_token show ?thesis
    by (cases "emit_nfe sample_env sample_world_no_token (Some ''org-0001-xyz'') ''n1''") simp
qed

end
